theory Spec2Isabelle
  imports Complex_Main
begin

section \<open>Data model (interfaces.ts)\<close>

text \<open>
  The engine is the class \<open>Backtester\<close>. A JavaScript \<open>number\<close> that holds a price or a
  percentage is modelled as a \<open>real\<close>: rounding, overflow and the values \<open>NaN\<close> and
  \<open>Infinity\<close> of IEEE doubles are outside the model, so a division is the engine's
  division only where the divisor (a candle's \<open>open\<close>) is not zero. Counters, indices
  and \<open>maxLookForwardCandles\<close> are \<open>nat\<close>, timestamps and precisions are \<open>int\<close>.
\<close>

record CandleData =
  openTime :: int
  "open" :: real
  high :: real
  low :: real
  close :: real
  volume :: real
  closeTime :: int
  quoteAssetVolume :: real
  trades :: int
  takerBuyBaseAssetVolume :: real
  takerBuyQuoteAssetVolume :: real
  ignore :: int

text \<open>\<open>CandleDetails\<close>: the four prices as formatted strings, the volume passed through.\<close>

record CandleDetails =
  open_d :: string
  high_d :: string
  low_d :: string
  close_d :: string
  volume_d :: real

record LegendCandle =
  currentDynamicThreshold :: string
  upwardThreshold :: string
  downwardThreshold :: string
  LegendCandleDifference :: string
  LegendCandleDetails :: CandleDetails

datatype reason = UpwardThresholdMet | DownwardThresholdMet

datatype side = LONG | SHORT

record Entry =
  reason :: reason
  side :: side
  price :: real
  formatted_price :: string
  time :: string
  candlesUntilThreshold :: nat
  PositionEntryCandleDetails :: CandleDetails

record ThresholdResult =
  Legend_Candle_no :: nat
  timestamp :: string
  LegendCandle :: LegendCandle
  entry :: "Entry option"
  success :: bool

record SymbolInfo =
  symbol_i :: string
  baseAsset :: string
  quoteAsset :: string
  baseAssetPrecision :: int
  quotePrecision :: int
  pricePrecision :: int
  quantityPrecision :: int

text \<open>
  \<open>TradingConfig\<close>, flattened to the leaves the engine reads:
  \<open>trade.maxLookForwardCandles\<close>, \<open>strategy.lookbackPeriod.threshold\<close>,
  \<open>strategy.lookbackPeriod.thresholdMultiplier\<close> and \<open>singleBacktest.timeframe\<close>.
\<close>

record TradingConfig =
  maxLookForwardCandles :: nat
  threshold :: real
  thresholdMultiplier :: real
  timeframe :: string

record Stats =
  totalCandles_s :: nat
  legendCandles_s :: nat
  successfulTrades_s :: nat
  successRate_s :: real

record BacktestResult =
  symbol_r :: string
  timeframe_r :: string
  symbolInfo_r :: SymbolInfo
  config_r :: TradingConfig
  results_r :: "ThresholdResult list"
  stats_r :: Stats

text \<open>
  The private fields of \<open>Backtester\<close> and its two constructor parameters;
  \<open>thresholdResults\<close>, which no method reads or writes, is left out.
\<close>

record Backtester =
  candles :: "CandleData list"
  totalCandles :: nat
  legendCandles :: nat
  successfulTrades :: nat
  symbolInfo :: "SymbolInfo option"
  symbol :: string
  runConfig :: TradingConfig

text \<open>
  What the engine throws: the two \<open>Error\<close>s for a missing \<open>symbolInfo\<close> (in
  \<open>formatPrice\<close> and in \<open>saveResults\<close>), the \<open>RangeError\<close> of
  \<open>Number.prototype.toFixed\<close> for a digit count outside 0..100, and the \<open>TypeError\<close>
  of reading a field of \<open>this.candles[index]\<close> when the index is past the end.
\<close>

datatype error =
  SymbolInfoNotSet
  | SymbolInfoNotSetBeforeSaving
  | RangeError
  | TypeError

text \<open>
  The two library renderings the engine calls are parameters: the digits
  \<open>Number.prototype.toFixed\<close> prints for a number and a digit count in range, and
  \<open>moment(t).format('YYYY-MM-DD HH:mm:ss')\<close>.
\<close>

record runtime =
  toFixedS :: "real \<Rightarrow> int \<Rightarrow> string"
  momentFormat :: "int \<Rightarrow> string"

section \<open>Operations (class Backtester)\<close>

definition bindE :: "error + 'a \<Rightarrow> ('a \<Rightarrow> error + 'b) \<Rightarrow> error + 'b" where
  "bindE m f = (case m of Inl e \<Rightarrow> Inl e | Inr x \<Rightarrow> f x)"

text \<open>The constructor: every field at its initialiser.\<close>

definition newBacktester :: "string \<Rightarrow> TradingConfig \<Rightarrow> Backtester" where
  "newBacktester s cfg =
     \<lparr>candles = [], totalCandles = 0, legendCandles = 0, successfulTrades = 0,
      symbolInfo = None, symbol = s, runConfig = cfg\<rparr>"

definition setSymbolInfo :: "Backtester \<Rightarrow> SymbolInfo \<Rightarrow> Backtester" where
  "setSymbolInfo bt info = bt\<lparr>symbolInfo := Some info\<rparr>"

text \<open>
  \<open>loadData\<close> on the rows of one CSV file, already parsed into candles, and the two
  bounds computed from \<open>dataFetch\<close>: a row inside the bounds is pushed and counted.
\<close>

definition loadData :: "Backtester \<Rightarrow> int \<Rightarrow> int \<Rightarrow> CandleData list \<Rightarrow> Backtester" where
  "loadData bt startTimestamp endTimestamp rows =
     foldl (\<lambda>b candle.
        if startTimestamp \<le> openTime candle \<and> openTime candle \<le> endTimestamp
        then b\<lparr>candles := candles b @ [candle], totalCandles := totalCandles b + 1\<rparr>
        else b) bt rows"

definition toFixed :: "runtime \<Rightarrow> real \<Rightarrow> int \<Rightarrow> error + string" where
  "toFixed rt x digits =
     (if digits < 0 \<or> 100 < digits then Inl RangeError else Inr (toFixedS rt x digits))"

text \<open>
  \<open>formatPrice\<close> on a number (every call in the class passes one; the \<open>parseFloat\<close> of
  a string argument is not modelled).
\<close>

definition formatPrice :: "runtime \<Rightarrow> Backtester \<Rightarrow> real \<Rightarrow> error + string" where
  "formatPrice rt bt p =
     (case symbolInfo bt of
        None \<Rightarrow> Inl SymbolInfoNotSet
      | Some info \<Rightarrow> toFixed rt p (pricePrecision info))"

definition formatCandleDetails :: "runtime \<Rightarrow> Backtester \<Rightarrow> CandleData \<Rightarrow> error + CandleDetails" where
  "formatCandleDetails rt bt candle =
     bindE (formatPrice rt bt (open candle)) (\<lambda>openS.
     bindE (formatPrice rt bt (high candle)) (\<lambda>highS.
     bindE (formatPrice rt bt (low candle)) (\<lambda>lowS.
     bindE (formatPrice rt bt (close candle)) (\<lambda>closeS.
     Inr \<lparr>open_d = openS, high_d = highS, low_d = lowS, close_d = closeS,
          volume_d = volume candle\<rparr>))))"

definition timeframeMap :: "(string \<times> nat) list" where
  "timeframeMap =
     [(''1m'', 200), (''3m'', 150), (''5m'', 120), (''15m'', 100), (''30m'', 80),
      (''1h'', 60), (''2h'', 48), (''4h'', 36), (''6h'', 24), (''8h'', 20),
      (''12h'', 15), (''1d'', 10)]"

text \<open>\<open>timeframeMap[timeframe] || 200\<close>: a missing key and a zero both give 200.\<close>

definition getLookbackPeriod :: "Backtester \<Rightarrow> nat" where
  "getLookbackPeriod bt =
     (case map_of timeframeMap (timeframe (runConfig bt)) of
        None \<Rightarrow> 200
      | Some v \<Rightarrow> if v = 0 then 200 else v)"

text \<open>\<open>Array.prototype.slice(from, until)\<close> for \<open>0 \<le> from\<close>; both ends clamp to the length.\<close>

definition slice :: "'a list \<Rightarrow> nat \<Rightarrow> nat \<Rightarrow> 'a list" where
  "slice xs from until = take (until - from) (drop from xs)"

text \<open>
  The window statistics, written twice in the source with the same text (in
  \<open>isLegendCandle\<close> and in \<open>findThresholds\<close>): \<open>previousDiffs\<close> and \<open>averageDiff\<close>.
\<close>

definition previousDiffs :: "CandleData list \<Rightarrow> real list" where
  "previousDiffs lookbackCandles =
     map (\<lambda>candle. \<bar>(close candle - open candle) / open candle\<bar> * 100) lookbackCandles"

definition averageDiff :: "CandleData list \<Rightarrow> real" where
  "averageDiff lookbackCandles =
     foldl (+) 0 (previousDiffs lookbackCandles) / real (length (previousDiffs lookbackCandles))"

text \<open>\<open>currentDiff\<close> of \<open>isLegendCandle\<close>: the absolute value is taken before the division.\<close>

definition currentDiff :: "CandleData \<Rightarrow> real" where
  "currentDiff currentCandle =
     (\<bar>close currentCandle - open currentCandle\<bar> / open currentCandle) * 100"

definition isLegendCandle :: "Backtester \<Rightarrow> nat \<Rightarrow> error + bool" where
  "isLegendCandle bt index =
     (let lookbackPeriod = getLookbackPeriod bt in
      if index < lookbackPeriod then Inr False
      else if length (candles bt) \<le> index then Inl TypeError
      else
        let lookbackCandles = slice (candles bt) (index - lookbackPeriod) index;
            currentCandle = candles bt ! index;
            dynamicThreshold = threshold (runConfig bt) * averageDiff lookbackCandles
        in Inr (currentDiff currentCandle \<ge> dynamicThreshold))"

text \<open>The three local constants of \<open>processLegendCandle\<close>.\<close>

definition thresholdValue :: "CandleData \<Rightarrow> real \<Rightarrow> real" where
  "thresholdValue candle dynamicThreshold = close candle * (dynamicThreshold / 100)"

definition upwardThreshold_of :: "CandleData \<Rightarrow> real \<Rightarrow> real" where
  "upwardThreshold_of candle dynamicThreshold =
     close candle + thresholdValue candle dynamicThreshold"

definition downwardThreshold_of :: "CandleData \<Rightarrow> real \<Rightarrow> real" where
  "downwardThreshold_of candle dynamicThreshold =
     close candle - thresholdValue candle dynamicThreshold"

text \<open>
  The \<open>for\<close> loop of \<open>processLegendCandle\<close>: \<open>i\<close> runs from \<open>candleIndex + 1\<close> while
  \<open>i < Math.min(candleIndex + maxLookForward + 1, this.candles.length)\<close>;
  \<open>candlesChecked\<close> is incremented before the candle is tested, and a \<open>break\<close> ends
  the loop with the entry attached.
\<close>

function entryLoop ::
  "runtime \<Rightarrow> Backtester \<Rightarrow> nat \<Rightarrow> real \<Rightarrow> real \<Rightarrow> nat \<Rightarrow> nat \<Rightarrow> ThresholdResult
     \<Rightarrow> error + ThresholdResult" where
  "entryLoop rt bt candleIndex up down i candlesChecked result =
     (if i < min (candleIndex + maxLookForwardCandles (runConfig bt) + 1) (length (candles bt))
      then
        let checked = candlesChecked + 1;
            futureCandle = candles bt ! i
        in
        if high futureCandle \<ge> up then
          (case formatPrice rt bt up of
             Inl e \<Rightarrow> Inl e
           | Inr fp \<Rightarrow>
             (case formatCandleDetails rt bt futureCandle of
                Inl e \<Rightarrow> Inl e
              | Inr details \<Rightarrow>
                Inr (result\<lparr>entry := Some
                       \<lparr>reason = UpwardThresholdMet, side = LONG, price = up,
                        formatted_price = fp @ '' USDT'',
                        time = momentFormat rt (openTime futureCandle),
                        candlesUntilThreshold = checked,
                        PositionEntryCandleDetails = details\<rparr>,
                     success := True\<rparr>)))
        else if low futureCandle \<le> down then
          (case formatPrice rt bt down of
             Inl e \<Rightarrow> Inl e
           | Inr fp \<Rightarrow>
             (case formatCandleDetails rt bt futureCandle of
                Inl e \<Rightarrow> Inl e
              | Inr details \<Rightarrow>
                Inr (result\<lparr>entry := Some
                       \<lparr>reason = DownwardThresholdMet, side = SHORT, price = down,
                        formatted_price = fp @ '' USDT'',
                        time = momentFormat rt (openTime futureCandle),
                        candlesUntilThreshold = checked,
                        PositionEntryCandleDetails = details\<rparr>,
                     success := True\<rparr>)))
        else entryLoop rt bt candleIndex up down (i + 1) checked result
      else Inr result)"
  by pat_completeness auto
termination
  by (relation "measure (\<lambda>(rt, bt, candleIndex, up, down, i, candlesChecked, result).
        min (candleIndex + maxLookForwardCandles (runConfig bt) + 1) (length (candles bt)) - i)")
     auto

declare entryLoop.simps [simp del]

text \<open>
  The object literal \<open>result\<close> of \<open>processLegendCandle\<close>, before the loop. Its fields
  are evaluated in order, so the first formatting that throws decides the error. The
  digit count of \<open>currentDynamicThreshold\<close> is \<open>this.symbolInfo?.pricePrecision || 2\<close>.
\<close>

definition newResult ::
  "runtime \<Rightarrow> Backtester \<Rightarrow> CandleData \<Rightarrow> real \<Rightarrow> error + ThresholdResult" where
  "newResult rt bt candle dynamicThreshold =
     bindE (toFixed rt dynamicThreshold
              (case symbolInfo bt of
                 None \<Rightarrow> 2
               | Some info \<Rightarrow> if pricePrecision info = 0 then 2 else pricePrecision info))
       (\<lambda>cdt.
     bindE (formatPrice rt bt (upwardThreshold_of candle dynamicThreshold)) (\<lambda>upS.
     bindE (formatPrice rt bt (downwardThreshold_of candle dynamicThreshold)) (\<lambda>downS.
     bindE (toFixed rt ((\<bar>close candle - open candle\<bar> / open candle) * 100) 2) (\<lambda>diffS.
     bindE (formatCandleDetails rt bt candle) (\<lambda>details.
     Inr \<lparr>Legend_Candle_no = legendCandles bt + 1,
          timestamp = momentFormat rt (openTime candle),
          LegendCandle =
            \<lparr>currentDynamicThreshold = cdt,
             upwardThreshold = upS,
             downwardThreshold = downS,
             LegendCandleDifference = diffS,
             LegendCandleDetails = details\<rparr>,
          entry = None,
          success = False\<rparr>)))))"

text \<open>\<open>processLegendCandle\<close>: \<open>null\<close> is \<open>None\<close>.\<close>

definition processLegendCandle ::
  "runtime \<Rightarrow> Backtester \<Rightarrow> nat \<Rightarrow> CandleData \<Rightarrow> real \<Rightarrow> error + ThresholdResult option" where
  "processLegendCandle rt bt candleIndex candle dynamicThreshold =
     bindE (isLegendCandle bt candleIndex) (\<lambda>isLegend.
       if \<not> isLegend then Inr None
       else
         bindE (newResult rt bt candle dynamicThreshold) (\<lambda>result.
         bindE (entryLoop rt bt candleIndex
                  (upwardThreshold_of candle dynamicThreshold)
                  (downwardThreshold_of candle dynamicThreshold)
                  (candleIndex + 1) 0 result)
           (\<lambda>result. Inr (Some result))))"

text \<open>
  The main \<open>for\<close> loop of \<open>findThresholds\<close>, from \<open>i = lookbackPeriod\<close>: the state carries
  the two counters, \<open>results\<close> is the local list.
\<close>

function mainLoop ::
  "runtime \<Rightarrow> Backtester \<Rightarrow> nat \<Rightarrow> nat \<Rightarrow> ThresholdResult list
     \<Rightarrow> error + (ThresholdResult list \<times> Backtester)" where
  "mainLoop rt bt lookbackPeriod i results =
     (if i < length (candles bt) then
        let lookbackCandles = slice (candles bt) (i - lookbackPeriod) i;
            currentCandle = candles bt ! i;
            dynamicThreshold = averageDiff lookbackCandles * thresholdMultiplier (runConfig bt)
        in
        (case processLegendCandle rt bt i currentCandle dynamicThreshold of
           Inl e \<Rightarrow> Inl e
         | Inr None \<Rightarrow> mainLoop rt bt lookbackPeriod (i + 1) results
         | Inr (Some result) \<Rightarrow>
             mainLoop rt
               (if success result
                then bt\<lparr>legendCandles := legendCandles bt + 1,
                        successfulTrades := successfulTrades bt + 1\<rparr>
                else bt\<lparr>legendCandles := legendCandles bt + 1\<rparr>)
               lookbackPeriod (i + 1) (results @ [result]))
      else Inr (results, bt))"
  by pat_completeness auto
termination
  by (relation "measure (\<lambda>(rt, bt, lookbackPeriod, i, results). length (candles bt) - i)")
     (auto split: if_splits)

declare mainLoop.simps [simp del]

text \<open>
  \<open>saveResults\<close>: the check of \<open>symbolInfo\<close>, then the document that is written to the
  results file (the file system itself is outside the model).
\<close>

definition saveResults :: "Backtester \<Rightarrow> ThresholdResult list \<Rightarrow> error + BacktestResult" where
  "saveResults bt results =
     (case symbolInfo bt of
        None \<Rightarrow> Inl SymbolInfoNotSetBeforeSaving
      | Some info \<Rightarrow>
          Inr \<lparr>symbol_r = symbol bt,
               timeframe_r = timeframe (runConfig bt),
               symbolInfo_r = info,
               config_r = runConfig bt,
               results_r = results,
               stats_r =
                 \<lparr>totalCandles_s = totalCandles bt,
                  legendCandles_s = legendCandles bt,
                  successfulTrades_s = successfulTrades bt,
                  successRate_s =
                    (if legendCandles bt > 0
                     then (real (successfulTrades bt) / real (legendCandles bt)) * 100
                     else 0)\<rparr>\<rparr>)"

text \<open>
  \<open>findThresholds\<close> returns the result list; the model returns with it the engine's
  state afterwards and the document \<open>saveResults\<close> wrote, if it was called.
\<close>

definition findThresholds ::
  "runtime \<Rightarrow> Backtester
     \<Rightarrow> error + (ThresholdResult list \<times> Backtester \<times> BacktestResult option)" where
  "findThresholds rt bt =
     (let lookbackPeriod = getLookbackPeriod bt in
      if length (candles bt) < lookbackPeriod then Inr ([], bt, None)
      else
        (case mainLoop rt bt lookbackPeriod lookbackPeriod [] of
           Inl e \<Rightarrow> Inl e
         | Inr (results, bt') \<Rightarrow>
             (case saveResults bt' results of
                Inl e \<Rightarrow> Inl e
              | Inr saved \<Rightarrow> Inr (results, bt', Some saved))))"

definition getStats :: "Backtester \<Rightarrow> Stats" where
  "getStats bt =
     \<lparr>totalCandles_s = totalCandles bt,
      legendCandles_s = legendCandles bt,
      successfulTrades_s = successfulTrades bt,
      successRate_s =
        (if legendCandles bt > 0
         then (real (successfulTrades bt) / real (legendCandles bt)) * 100
         else 0)\<rparr>"

section \<open>Notions used by the properties\<close>

text \<open>The bound of the \<open>for\<close> loop in \<open>processLegendCandle\<close>, exclusive.\<close>

definition scanBound :: "Backtester \<Rightarrow> nat \<Rightarrow> nat" where
  "scanBound bt candleIndex =
     min (candleIndex + maxLookForwardCandles (runConfig bt) + 1) (length (candles bt))"

text \<open>The two conditions the loop tests on the candle at index \<open>j\<close>.\<close>

definition triggers :: "Backtester \<Rightarrow> real \<Rightarrow> real \<Rightarrow> nat \<Rightarrow> bool" where
  "triggers bt up down j \<longleftrightarrow> high (candles bt ! j) \<ge> up \<or> low (candles bt ! j) \<le> down"

text \<open>
  \<open>scanned rt bt up down j n e\<close>: \<open>e\<close> is the entry the loop builds at the candle with
  index \<open>j\<close> after \<open>n\<close> candles have been checked, the upward test first.
\<close>

definition scanned ::
  "runtime \<Rightarrow> Backtester \<Rightarrow> real \<Rightarrow> real \<Rightarrow> nat \<Rightarrow> nat \<Rightarrow> Entry \<Rightarrow> bool" where
  "scanned rt bt up down j n e \<longleftrightarrow>
     candlesUntilThreshold e = n \<and>
     time e = momentFormat rt (openTime (candles bt ! j)) \<and>
     formatCandleDetails rt bt (candles bt ! j) = Inr (PositionEntryCandleDetails e) \<and>
     (if high (candles bt ! j) \<ge> up
      then reason e = UpwardThresholdMet \<and> side e = LONG \<and> price e = up
      else reason e = DownwardThresholdMet \<and> side e = SHORT \<and> price e = down)"

text \<open>
  \<open>dynamicThreshold\<close> of \<open>findThresholds\<close> at position \<open>i\<close>: the average move of the
  window times \<open>thresholdMultiplier\<close>.
\<close>

definition primaryThreshold :: "Backtester \<Rightarrow> nat \<Rightarrow> nat \<Rightarrow> real" where
  "primaryThreshold bt lookbackPeriod i =
     averageDiff (slice (candles bt) (i - lookbackPeriod) i) * thresholdMultiplier (runConfig bt)"

text \<open>
  What \<open>processLegendCandle\<close> returns at position \<open>i\<close> of the main loop when \<open>found\<close>
  legend candles have been counted before it.
\<close>

definition resultAt ::
  "runtime \<Rightarrow> Backtester \<Rightarrow> nat \<Rightarrow> nat \<Rightarrow> nat \<Rightarrow> error + ThresholdResult option" where
  "resultAt rt bt lookbackPeriod found i =
     processLegendCandle rt (bt\<lparr>legendCandles := found\<rparr>) i (candles bt ! i)
       (primaryThreshold bt lookbackPeriod i)"

text \<open>The positions from \<open>i\<close> on at which \<open>isLegendCandle\<close> returns true.\<close>

definition gated :: "Backtester \<Rightarrow> nat \<Rightarrow> nat list" where
  "gated bt i = filter (\<lambda>j. isLegendCandle bt j = Inr True) [i..<length (candles bt)]"

text \<open>
  The comparison \<open>isLegendCandle\<close> returns, \<open>currentDiff >= dynamicThreshold\<close> with the
  base \<open>threshold\<close>, and the positions of a series that pass it.
\<close>

definition advisoryCheck :: "Backtester \<Rightarrow> nat \<Rightarrow> bool" where
  "advisoryCheck bt i \<longleftrightarrow>
     currentDiff (candles bt ! i)
       \<ge> threshold (runConfig bt)
           * averageDiff (slice (candles bt) (i - getLookbackPeriod bt) i)"

definition legendPositions :: "Backtester \<Rightarrow> nat list" where
  "legendPositions bt =
     filter (advisoryCheck bt) [getLookbackPeriod bt..<length (candles bt)]"

definition positionTimestamp :: "runtime \<Rightarrow> Backtester \<Rightarrow> nat \<Rightarrow> string" where
  "positionTimestamp rt bt i = momentFormat rt (openTime (candles bt ! i))"

text \<open>
  The arithmetic mean of the window's moves, with the absolute value around the
  quotient as the code has it, and with the absolute value around the difference only,
  as the specification words it.
\<close>

definition meanMove :: "CandleData list \<Rightarrow> real" where
  "meanMove lookbackCandles =
     sum_list (map (\<lambda>c. \<bar>(close c - open c) / open c\<bar> * 100) lookbackCandles)
       / real (length lookbackCandles)"

definition meanMove_claimed :: "CandleData list \<Rightarrow> real" where
  "meanMove_claimed lookbackCandles =
     sum_list (map (\<lambda>c. \<bar>close c - open c\<bar> / open c * 100) lookbackCandles)
       / real (length lookbackCandles)"

text \<open>The statistics recomputed from a result list and the number of candles loaded.\<close>

definition statsOfResults :: "nat \<Rightarrow> ThresholdResult list \<Rightarrow> Stats" where
  "statsOfResults loaded results =
     \<lparr>totalCandles_s = loaded,
      legendCandles_s = length results,
      successfulTrades_s = length (filter success results),
      successRate_s =
        (if length results > 0
         then (real (length (filter success results)) / real (length results)) * 100
         else 0)\<rparr>"

text \<open>
  An engine before its run: made by the constructor, then any number of calls of
  \<open>setSymbolInfo\<close> and \<open>loadData\<close>, as \<open>run-backtest.ts\<close> and \<open>batch-processor.ts\<close> do.
\<close>

inductive prepared :: "Backtester \<Rightarrow> bool" where
  prepared_new: "prepared (newBacktester s cfg)"
| prepared_info: "prepared bt \<Longrightarrow> prepared (setSymbolInfo bt info)"
| prepared_load: "prepared bt \<Longrightarrow> prepared (loadData bt startTimestamp endTimestamp rows)"

section \<open>A concrete run\<close>

text \<open>
  Daily candles, so the lookback is 10: ten candles that move by half a percent, the
  candle \<open>(open 100, high 130, low 70, close 120)\<close>, and one candle after it whose
  high is 130 and whose low is 110.
\<close>

definition exRuntime :: runtime where
  "exRuntime = \<lparr>toFixedS = (\<lambda>x digits. []), momentFormat = (\<lambda>t. [])\<rparr>"

definition exCandle :: "int \<Rightarrow> real \<Rightarrow> real \<Rightarrow> real \<Rightarrow> real \<Rightarrow> CandleData" where
  "exCandle t op hi lo cl =
     \<lparr>openTime = t, open = op, high = hi, low = lo, close = cl, volume = 1,
      closeTime = t + 1, quoteAssetVolume = 0, trades = 0, takerBuyBaseAssetVolume = 0,
      takerBuyQuoteAssetVolume = 0, ignore = 0\<rparr>"

definition exConfig :: TradingConfig where
  "exConfig =
     \<lparr>maxLookForwardCandles = 100, threshold = 15, thresholdMultiplier = 2,
      timeframe = ''1d''\<rparr>"

definition exInfo :: SymbolInfo where
  "exInfo =
     \<lparr>symbol_i = ''ETHUSDT'', baseAsset = ''ETH'', quoteAsset = ''USDT'',
      baseAssetPrecision = 8, quotePrecision = 8, pricePrecision = 2,
      quantityPrecision = 3\<rparr>"

definition exWindow :: "CandleData list" where
  "exWindow =
     [exCandle 0 100 (201 / 2) 100 (201 / 2), exCandle 1 100 (201 / 2) 100 (201 / 2),
      exCandle 2 100 (201 / 2) 100 (201 / 2), exCandle 3 100 (201 / 2) 100 (201 / 2),
      exCandle 4 100 (201 / 2) 100 (201 / 2), exCandle 5 100 (201 / 2) 100 (201 / 2),
      exCandle 6 100 (201 / 2) 100 (201 / 2), exCandle 7 100 (201 / 2) 100 (201 / 2),
      exCandle 8 100 (201 / 2) 100 (201 / 2), exCandle 9 100 (201 / 2) 100 (201 / 2)]"

definition exLegend :: CandleData where
  "exLegend = exCandle 10 100 130 70 120"

definition exForward :: CandleData where
  "exForward = exCandle 11 120 130 110 125"

definition exBacktester :: Backtester where
  "exBacktester =
     loadData (setSymbolInfo (newBacktester ''ETHUSDT'' exConfig) exInfo) 0 100
       (exWindow @ [exLegend, exForward])"

definition exEntry :: "runtime \<Rightarrow> Entry" where
  "exEntry rt =
     \<lparr>reason = UpwardThresholdMet, side = LONG, price = 606 / 5,
      formatted_price = toFixedS rt (606 / 5) 2 @ '' USDT'',
      time = momentFormat rt 11,
      candlesUntilThreshold = 1,
      PositionEntryCandleDetails =
        \<lparr>open_d = toFixedS rt 120 2, high_d = toFixedS rt 130 2,
         low_d = toFixedS rt 110 2, close_d = toFixedS rt 125 2, volume_d = 1\<rparr>\<rparr>"

definition exResult :: "runtime \<Rightarrow> ThresholdResult" where
  "exResult rt =
     \<lparr>Legend_Candle_no = 1,
      timestamp = momentFormat rt 10,
      LegendCandle =
        \<lparr>currentDynamicThreshold = toFixedS rt 1 2,
         upwardThreshold = toFixedS rt (606 / 5) 2,
         downwardThreshold = toFixedS rt (594 / 5) 2,
         LegendCandleDifference = toFixedS rt 20 2,
         LegendCandleDetails =
           \<lparr>open_d = toFixedS rt 100 2, high_d = toFixedS rt 130 2,
            low_d = toFixedS rt 70 2, close_d = toFixedS rt 120 2, volume_d = 1\<rparr>\<rparr>,
      entry = Some (exEntry rt),
      success = True\<rparr>"

text \<open>The document \<open>saveResults\<close> writes for that run.\<close>

definition exSaved :: "runtime \<Rightarrow> BacktestResult" where
  "exSaved rt =
     \<lparr>symbol_r = ''ETHUSDT'', timeframe_r = ''1d'', symbolInfo_r = exInfo,
      config_r = exConfig, results_r = [exResult rt],
      stats_r =
        \<lparr>totalCandles_s = 12, legendCandles_s = 1, successfulTrades_s = 1,
         successRate_s = 100\<rparr>\<rparr>"

text \<open>The same window followed by a candle that does not move: eleven candles.\<close>

definition exCalm :: CandleData where
  "exCalm = exCandle 10 100 101 99 100"

definition exQuietBacktester :: Backtester where
  "exQuietBacktester =
     loadData (setSymbolInfo (newBacktester ''ETHUSDT'' exConfig) exInfo) 0 100
       (exWindow @ [exCalm])"

definition exQuietSaved :: BacktestResult where
  "exQuietSaved =
     \<lparr>symbol_r = ''ETHUSDT'', timeframe_r = ''1d'', symbolInfo_r = exInfo,
      config_r = exConfig, results_r = [],
      stats_r =
        \<lparr>totalCandles_s = 11, legendCandles_s = 0, successfulTrades_s = 0,
         successRate_s = 0\<rparr>\<rparr>"

text \<open>The first series on an engine whose symbol info was never set.\<close>

definition exNoInfoBacktester :: Backtester where
  "exNoInfoBacktester =
     loadData (newBacktester ''ETHUSDT'' exConfig) 0 100 (exWindow @ [exLegend, exForward])"

text \<open>A series of one candle.\<close>

definition exShortBacktester :: Backtester where
  "exShortBacktester = loadData (newBacktester ''ETHUSDT'' exConfig) 0 100 [exLegend]"

text \<open>A window of candles with negative prices that move by half a percent.\<close>

definition exNegWindow :: "CandleData list" where
  "exNegWindow =
     [exCandle 0 (- 100) (- (199 / 2)) (- 100) (- (199 / 2)),
      exCandle 1 (- 100) (- (199 / 2)) (- 100) (- (199 / 2)),
      exCandle 2 (- 100) (- (199 / 2)) (- 100) (- (199 / 2)),
      exCandle 3 (- 100) (- (199 / 2)) (- 100) (- (199 / 2)),
      exCandle 4 (- 100) (- (199 / 2)) (- 100) (- (199 / 2)),
      exCandle 5 (- 100) (- (199 / 2)) (- 100) (- (199 / 2)),
      exCandle 6 (- 100) (- (199 / 2)) (- 100) (- (199 / 2)),
      exCandle 7 (- 100) (- (199 / 2)) (- 100) (- (199 / 2)),
      exCandle 8 (- 100) (- (199 / 2)) (- 100) (- (199 / 2)),
      exCandle 9 (- 100) (- (199 / 2)) (- 100) (- (199 / 2))]"

definition exNegBacktester :: Backtester where
  "exNegBacktester =
     loadData (setSymbolInfo (newBacktester ''ETHUSDT'' exConfig) exInfo) 0 100
       (exNegWindow @ [exLegend, exForward])"

text \<open>
  The series of the specification's scenario: three window candles, the candle
  \<open>(100, 130, 70, 120)\<close> and one candle after it.
\<close>

definition exWindow3 :: "CandleData list" where
  "exWindow3 =
     [exCandle 0 100 (201 / 2) 100 (201 / 2), exCandle 1 100 (201 / 2) 100 (201 / 2),
      exCandle 2 100 (201 / 2) 100 (201 / 2)]"

definition exFiveBacktester :: Backtester where
  "exFiveBacktester =
     loadData (setSymbolInfo (newBacktester ''ETHUSDT'' exConfig) exInfo) 0 100
       (exWindow3 @ [exLegend, exForward])"

text \<open>
  The engine of the first run after that run, run once more: its result and the
  document written.
\<close>

definition exRerunBacktester :: Backtester where
  "exRerunBacktester = exBacktester\<lparr>legendCandles := 1, successfulTrades := 1\<rparr>"

definition exRerunResult :: "runtime \<Rightarrow> ThresholdResult" where
  "exRerunResult rt = (exResult rt)\<lparr>Legend_Candle_no := 2\<rparr>"

definition exRerunSaved :: "runtime \<Rightarrow> BacktestResult" where
  "exRerunSaved rt =
     \<lparr>symbol_r = ''ETHUSDT'', timeframe_r = ''1d'', symbolInfo_r = exInfo,
      config_r = exConfig, results_r = [exRerunResult rt],
      stats_r =
        \<lparr>totalCandles_s = 12, legendCandles_s = 2, successfulTrades_s = 2,
         successRate_s = 100\<rparr>\<rparr>"

text \<open>
  The window followed by three candles that each pass the check of \<open>isLegendCandle\<close>:
  moves of 20, 40 and 100 percent. The first two are entered at the next candle, the
  last has no candle after it.
\<close>

definition exSecond :: CandleData where
  "exSecond = exCandle 11 100 150 90 140"

definition exThird :: CandleData where
  "exThird = exCandle 12 100 210 95 200"

definition exThreeBacktester :: Backtester where
  "exThreeBacktester =
     loadData (setSymbolInfo (newBacktester ''ETHUSDT'' exConfig) exInfo) 0 100
       (exWindow @ [exLegend, exSecond, exThird])"

definition exDetails :: "runtime \<Rightarrow> CandleData \<Rightarrow> CandleDetails" where
  "exDetails rt c =
     \<lparr>open_d = toFixedS rt (open c) 2, high_d = toFixedS rt (high c) 2,
      low_d = toFixedS rt (low c) 2, close_d = toFixedS rt (close c) 2,
      volume_d = volume c\<rparr>"

definition exThreeResults :: "runtime \<Rightarrow> ThresholdResult list" where
  "exThreeResults rt =
     [\<lparr>Legend_Candle_no = 1,
       timestamp = momentFormat rt 10,
       LegendCandle =
         \<lparr>currentDynamicThreshold = toFixedS rt 1 2,
          upwardThreshold = toFixedS rt (606 / 5) 2,
          downwardThreshold = toFixedS rt (594 / 5) 2,
          LegendCandleDifference = toFixedS rt 20 2,
          LegendCandleDetails = exDetails rt exLegend\<rparr>,
       entry = Some
         \<lparr>reason = UpwardThresholdMet, side = LONG, price = 606 / 5,
          formatted_price = toFixedS rt (606 / 5) 2 @ '' USDT'',
          time = momentFormat rt 11,
          candlesUntilThreshold = 1,
          PositionEntryCandleDetails = exDetails rt exSecond\<rparr>,
       success = True\<rparr>,
      \<lparr>Legend_Candle_no = 2,
       timestamp = momentFormat rt 11,
       LegendCandle =
         \<lparr>currentDynamicThreshold = toFixedS rt (49 / 10) 2,
          upwardThreshold = toFixedS rt (7343 / 50) 2,
          downwardThreshold = toFixedS rt (6657 / 50) 2,
          LegendCandleDifference = toFixedS rt 40 2,
          LegendCandleDetails = exDetails rt exSecond\<rparr>,
       entry = Some
         \<lparr>reason = UpwardThresholdMet, side = LONG, price = 7343 / 50,
          formatted_price = toFixedS rt (7343 / 50) 2 @ '' USDT'',
          time = momentFormat rt 12,
          candlesUntilThreshold = 1,
          PositionEntryCandleDetails = exDetails rt exThird\<rparr>,
       success = True\<rparr>,
      \<lparr>Legend_Candle_no = 3,
       timestamp = momentFormat rt 12,
       LegendCandle =
         \<lparr>currentDynamicThreshold = toFixedS rt (64 / 5) 2,
          upwardThreshold = toFixedS rt (1128 / 5) 2,
          downwardThreshold = toFixedS rt (872 / 5) 2,
          LegendCandleDifference = toFixedS rt 100 2,
          LegendCandleDetails = exDetails rt exThird\<rparr>,
       entry = None,
       success = False\<rparr>]"

definition exThreeSaved :: "runtime \<Rightarrow> BacktestResult" where
  "exThreeSaved rt =
     \<lparr>symbol_r = ''ETHUSDT'', timeframe_r = ''1d'', symbolInfo_r = exInfo,
      config_r = exConfig, results_r = exThreeResults rt,
      stats_r =
        \<lparr>totalCandles_s = 13, legendCandles_s = 3, successfulTrades_s = 2,
         successRate_s = 200 / 3\<rparr>\<rparr>"

section \<open>Formatting and the error monad\<close>

lemma getLookbackPeriod_ge: "10 \<le> getLookbackPeriod bt"
  by (simp add: getLookbackPeriod_def timeframeMap_def)

lemma bindE_Inr_iff: "bindE m f = Inr y \<longleftrightarrow> (\<exists>x. m = Inr x \<and> f x = Inr y)"
  by (cases m) (simp_all add: bindE_def)

lemma bindE_Inl_iff: "bindE m f = Inl e \<longleftrightarrow> (m = Inl e \<or> (\<exists>x. m = Inr x \<and> f x = Inl e))"
  by (cases m) (simp_all add: bindE_def)

lemma bindE_simps [simp]: "bindE (Inl e) f = Inl e" "bindE (Inr x) f = f x"
  by (simp_all add: bindE_def)

lemma toFixed_Inr_iff:
  "toFixed rt x d = Inr s \<longleftrightarrow> 0 \<le> d \<and> d \<le> 100 \<and> s = toFixedS rt x d"
  by (auto simp: toFixed_def)

lemma toFixed_Inl_iff:
  "toFixed rt x d = Inl e \<longleftrightarrow> (d < 0 \<or> 100 < d) \<and> e = RangeError"
  by (auto simp: toFixed_def)

lemma formatPrice_Inr_iff:
  "formatPrice rt bt p = Inr s \<longleftrightarrow>
     (\<exists>info. symbolInfo bt = Some info \<and> 0 \<le> pricePrecision info \<and> pricePrecision info \<le> 100
        \<and> s = toFixedS rt p (pricePrecision info))"
  by (auto simp: formatPrice_def toFixed_Inr_iff split: option.splits)

lemma formatPrice_ok:
  "symbolInfo bt = Some info \<Longrightarrow> 0 \<le> pricePrecision info \<Longrightarrow> pricePrecision info \<le> 100 \<Longrightarrow>
     formatPrice rt bt p = Inr (toFixedS rt p (pricePrecision info))"
  by (simp add: formatPrice_Inr_iff)

lemma formatPrice_None: "symbolInfo bt = None \<Longrightarrow> formatPrice rt bt p = Inl SymbolInfoNotSet"
  by (simp add: formatPrice_def)

lemma formatPrice_Some_Inl:
  "symbolInfo bt = Some info \<Longrightarrow> formatPrice rt bt p = Inl e \<Longrightarrow> e = RangeError"
  by (simp add: formatPrice_def toFixed_Inl_iff)

lemma formatCandleDetails_ok:
  "symbolInfo bt = Some info \<Longrightarrow> 0 \<le> pricePrecision info \<Longrightarrow> pricePrecision info \<le> 100 \<Longrightarrow>
     formatCandleDetails rt bt c =
       Inr \<lparr>open_d = toFixedS rt (open c) (pricePrecision info),
            high_d = toFixedS rt (high c) (pricePrecision info),
            low_d = toFixedS rt (low c) (pricePrecision info),
            close_d = toFixedS rt (close c) (pricePrecision info),
            volume_d = volume c\<rparr>"
  by (simp add: formatCandleDetails_def formatPrice_ok)

lemma formatCandleDetails_Some_Inl:
  "symbolInfo bt = Some info \<Longrightarrow> formatCandleDetails rt bt c = Inl e \<Longrightarrow> e = RangeError"
  by (auto simp: formatCandleDetails_def bindE_Inl_iff dest: formatPrice_Some_Inl)

lemma entryLoop_stop:
  "\<not> i < scanBound bt ci \<Longrightarrow> entryLoop rt bt ci up down i cc res = Inr res"
  by (subst entryLoop.simps) (auto simp: scanBound_def)

lemma entryLoop_skip:
  "i < scanBound bt ci \<Longrightarrow> \<not> triggers bt up down i \<Longrightarrow>
     entryLoop rt bt ci up down i cc res = entryLoop rt bt ci up down (i + 1) (cc + 1) res"
  by (subst entryLoop.simps) (simp add: scanBound_def triggers_def)

lemma entryLoop_up:
  "i < scanBound bt ci \<Longrightarrow> high (candles bt ! i) \<ge> up \<Longrightarrow>
     entryLoop rt bt ci up down i cc res =
       bindE (formatPrice rt bt up) (\<lambda>fp.
       bindE (formatCandleDetails rt bt (candles bt ! i)) (\<lambda>details.
         Inr (res\<lparr>entry := Some
                \<lparr>reason = UpwardThresholdMet, side = LONG, price = up,
                 formatted_price = fp @ '' USDT'',
                 time = momentFormat rt (openTime (candles bt ! i)),
                 candlesUntilThreshold = cc + 1,
                 PositionEntryCandleDetails = details\<rparr>,
              success := True\<rparr>)))"
  by (subst entryLoop.simps) (simp add: scanBound_def bindE_def split: sum.splits)

lemma entryLoop_down:
  "i < scanBound bt ci \<Longrightarrow> \<not> high (candles bt ! i) \<ge> up \<Longrightarrow> low (candles bt ! i) \<le> down \<Longrightarrow>
     entryLoop rt bt ci up down i cc res =
       bindE (formatPrice rt bt down) (\<lambda>fp.
       bindE (formatCandleDetails rt bt (candles bt ! i)) (\<lambda>details.
         Inr (res\<lparr>entry := Some
                \<lparr>reason = DownwardThresholdMet, side = SHORT, price = down,
                 formatted_price = fp @ '' USDT'',
                 time = momentFormat rt (openTime (candles bt ! i)),
                 candlesUntilThreshold = cc + 1,
                 PositionEntryCandleDetails = details\<rparr>,
              success := True\<rparr>)))"
  by (subst entryLoop.simps) (simp add: scanBound_def bindE_def split: sum.splits)

lemma entryLoop_Inr:
  "entryLoop rt bt ci up down i cc res = Inr r' \<Longrightarrow>
     (r' = res \<and> (\<forall>j. i \<le> j \<and> j < scanBound bt ci \<longrightarrow> \<not> triggers bt up down j))
   \<or> (\<exists>j e. i \<le> j \<and> j < scanBound bt ci \<and> triggers bt up down j
          \<and> (\<forall>k. i \<le> k \<and> k < j \<longrightarrow> \<not> triggers bt up down k)
          \<and> r' = res\<lparr>entry := Some e, success := True\<rparr>
          \<and> scanned rt bt up down j (cc + (j - i) + 1) e)"
proof (induction rt bt ci up down i cc res rule: entryLoop.induct)
  case (1 rt bt ci up down i cc res)
  show ?case
  proof (cases "i < scanBound bt ci")
    case False
    with "1.prems" have "r' = res" by (simp add: entryLoop_stop)
    with False show ?thesis by auto
  next
    case inb: True
    show ?thesis
    proof (cases "triggers bt up down i")
      case False
      with inb "1.prems" have run: "entryLoop rt bt ci up down (i + 1) (cc + 1) res = Inr r'"
        by (simp add: entryLoop_skip)
      from False inb have "\<not> up \<le> high (candles bt ! i)" "\<not> low (candles bt ! i) \<le> down"
        "i < min (ci + maxLookForwardCandles (runConfig bt) + 1) (length (candles bt))"
        by (simp_all add: triggers_def scanBound_def)
      from "1.IH" [OF this(3) refl refl this(1,2) run]
      show ?thesis
      proof
        assume a: "r' = res \<and> (\<forall>j. i + 1 \<le> j \<and> j < scanBound bt ci \<longrightarrow> \<not> triggers bt up down j)"
        have "\<forall>j. i \<le> j \<and> j < scanBound bt ci \<longrightarrow> \<not> triggers bt up down j"
        proof (intro allI impI)
          fix j assume "i \<le> j \<and> j < scanBound bt ci"
          then show "\<not> triggers bt up down j"
            using a False by (cases "j = i") auto
        qed
        with a show ?thesis by simp
      next
        assume "\<exists>j e. i + 1 \<le> j \<and> j < scanBound bt ci \<and> triggers bt up down j
          \<and> (\<forall>k. i + 1 \<le> k \<and> k < j \<longrightarrow> \<not> triggers bt up down k)
          \<and> r' = res\<lparr>entry := Some e, success := True\<rparr>
          \<and> scanned rt bt up down j (cc + 1 + (j - (i + 1)) + 1) e"
        then obtain j e where j: "i + 1 \<le> j" "j < scanBound bt ci" "triggers bt up down j"
          and first: "\<forall>k. i + 1 \<le> k \<and> k < j \<longrightarrow> \<not> triggers bt up down k"
          and r': "r' = res\<lparr>entry := Some e, success := True\<rparr>"
          and sc: "scanned rt bt up down j (cc + 1 + (j - (i + 1)) + 1) e"
          by blast
        have "\<forall>k. i \<le> k \<and> k < j \<longrightarrow> \<not> triggers bt up down k"
        proof (intro allI impI)
          fix k assume "i \<le> k \<and> k < j"
          then show "\<not> triggers bt up down k"
            using first False by (cases "k = i") auto
        qed
        moreover from j(1) have "cc + 1 + (j - (i + 1)) + 1 = cc + (j - i) + 1" by simp
        ultimately show ?thesis using j r' sc by (intro disjI2 exI [of _ j] exI [of _ e]) simp
      qed
    next
      case True
      show ?thesis
      proof (cases "high (candles bt ! i) \<ge> up")
        case up: True
        from "1.prems" show ?thesis
          unfolding entryLoop_up [OF inb up] bindE_Inr_iff
          using True inb up by (intro disjI2 exI [of _ i]) (auto simp: scanned_def)
      next
        case nup: False
        with True have dn: "low (candles bt ! i) \<le> down" by (simp add: triggers_def)
        from "1.prems" show ?thesis
          unfolding entryLoop_down [OF inb nup dn] bindE_Inr_iff
          using True inb nup by (intro disjI2 exI [of _ i]) (auto simp: scanned_def)
      qed
    qed
  qed
qed

section \<open>What the scan reads\<close>

lemma getLookbackPeriod_cong:
  "runConfig b = runConfig a \<Longrightarrow> getLookbackPeriod b = getLookbackPeriod a"
  by (simp add: getLookbackPeriod_def)

lemma isLegendCandle_cong:
  "candles b = candles a \<Longrightarrow> runConfig b = runConfig a \<Longrightarrow> isLegendCandle b i = isLegendCandle a i"
  by (simp add: isLegendCandle_def getLookbackPeriod_def Let_def)

lemma formatPrice_cong:
  "symbolInfo b = symbolInfo a \<Longrightarrow> formatPrice rt b p = formatPrice rt a p"
  by (simp add: formatPrice_def)

lemma formatCandleDetails_cong:
  "symbolInfo b = symbolInfo a \<Longrightarrow> formatCandleDetails rt b c = formatCandleDetails rt a c"
  by (simp add: formatCandleDetails_def formatPrice_cong [of b a])

lemma newResult_cong:
  "symbolInfo b = symbolInfo a \<Longrightarrow> legendCandles b = legendCandles a \<Longrightarrow>
     newResult rt b c d = newResult rt a c d"
  by (simp add: newResult_def formatPrice_cong [of b a] formatCandleDetails_cong [of b a])

lemma scanBound_cong:
  "runConfig b = runConfig a \<Longrightarrow> length (candles b) = length (candles a) \<Longrightarrow>
     scanBound b ci = scanBound a ci"
  by (simp add: scanBound_def)

lemma entryLoop_cong:
  "symbolInfo b = symbolInfo a \<Longrightarrow> runConfig b = runConfig a \<Longrightarrow>
   length (candles b) = length (candles a) \<Longrightarrow>
   (\<forall>j. i \<le> j \<and> j < scanBound a ci \<longrightarrow> candles b ! j = candles a ! j) \<Longrightarrow>
     entryLoop rt b ci up down i cc res = entryLoop rt a ci up down i cc res"
proof (induction rt a ci up down i cc res rule: entryLoop.induct)
  case (1 rt a ci up down i cc res)
  have sb: "scanBound b ci = scanBound a ci"
    using "1.prems"(2,3) by (rule scanBound_cong)
  have fp: "formatPrice rt b p = formatPrice rt a p" for p
    using "1.prems"(1) by (rule formatPrice_cong)
  have fd: "formatCandleDetails rt b c = formatCandleDetails rt a c" for c
    using "1.prems"(1) by (rule formatCandleDetails_cong)
  show ?case
  proof (cases "i < scanBound a ci")
    case False
    then have "entryLoop rt a ci up down i cc res = Inr res"
      by (rule entryLoop_stop)
    moreover from False sb have "entryLoop rt b ci up down i cc res = Inr res"
      by (intro entryLoop_stop) simp
    ultimately show ?thesis by simp
  next
    case inb: True
    then have inb': "i < scanBound b ci" by (simp add: sb)
    from inb "1.prems"(4) have same: "candles b ! i = candles a ! i" by simp
    show ?thesis
    proof (cases "triggers a up down i")
      case False
      then have nb: "\<not> triggers b up down i" by (simp add: triggers_def same)
      from False inb have c: "\<not> up \<le> high (candles a ! i)" "\<not> low (candles a ! i) \<le> down"
        "i < min (ci + maxLookForwardCandles (runConfig a) + 1) (length (candles a))"
        by (simp_all add: triggers_def scanBound_def)
      have rest: "\<forall>j. i + 1 \<le> j \<and> j < scanBound a ci \<longrightarrow> candles b ! j = candles a ! j"
        using "1.prems"(4) by auto
      have "entryLoop rt b ci up down i cc res = entryLoop rt b ci up down (i + 1) (cc + 1) res"
        using inb' nb by (rule entryLoop_skip)
      also have "\<dots> = entryLoop rt a ci up down (i + 1) (cc + 1) res"
        using c(3) refl refl c(1,2) "1.prems"(1,2,3) rest by (rule "1.IH")
      also have "\<dots> = entryLoop rt a ci up down i cc res"
        using inb False by (rule entryLoop_skip [symmetric])
      finally show ?thesis .
    next
      case True
      show ?thesis
      proof (cases "high (candles a ! i) \<ge> up")
        case up: True
        then have upb: "high (candles b ! i) \<ge> up" by (simp add: same)
        show ?thesis
          unfolding entryLoop_up [OF inb up] entryLoop_up [OF inb' upb] fp fd same ..
      next
        case nup: False
        with True have dn: "low (candles a ! i) \<le> down" by (simp add: triggers_def)
        from nup have nupb: "\<not> high (candles b ! i) \<ge> up" by (simp add: same)
        from dn have dnb: "low (candles b ! i) \<le> down" by (simp add: same)
        show ?thesis
          unfolding entryLoop_down [OF inb nup dn] entryLoop_down [OF inb' nupb dnb] fp fd same ..
      qed
    qed
  qed
qed

lemma processLegendCandle_cong:
  "candles b = candles a \<Longrightarrow> symbolInfo b = symbolInfo a \<Longrightarrow> runConfig b = runConfig a \<Longrightarrow>
   legendCandles b = legendCandles a \<Longrightarrow>
     processLegendCandle rt b i c d = processLegendCandle rt a i c d"
  by (simp add: processLegendCandle_def isLegendCandle_cong [of b a] newResult_cong [of b a]
        entryLoop_cong [of b a] cong: if_cong)

section \<open>The result of one position\<close>

lemma newResult_Inr:
  "newResult rt bt c d = Inr r0 \<Longrightarrow>
     \<exists>info. symbolInfo bt = Some info \<and> 0 \<le> pricePrecision info \<and> pricePrecision info \<le> 100
       \<and> Legend_Candle_no r0 = legendCandles bt + 1
       \<and> timestamp r0 = momentFormat rt (openTime c)
       \<and> upwardThreshold (LegendCandle r0) = toFixedS rt (upwardThreshold_of c d) (pricePrecision info)
       \<and> downwardThreshold (LegendCandle r0) = toFixedS rt (downwardThreshold_of c d) (pricePrecision info)
       \<and> entry r0 = None \<and> \<not> success r0"
  by (auto simp: newResult_def bindE_Inr_iff formatPrice_Inr_iff)

lemma newResult_None:
  "symbolInfo bt = None \<Longrightarrow> newResult rt bt c d = Inl SymbolInfoNotSet"
  by (simp add: newResult_def toFixed_def formatPrice_def)

lemma newResult_Some_Inl:
  "symbolInfo bt = Some info \<Longrightarrow> newResult rt bt c d = Inl e \<Longrightarrow> e = RangeError"
  by (auto simp: newResult_def bindE_Inl_iff toFixed_Inl_iff
           dest: formatPrice_Some_Inl formatCandleDetails_Some_Inl)

lemma newResult_ok:
  "symbolInfo bt = Some info \<Longrightarrow> 0 \<le> pricePrecision info \<Longrightarrow> pricePrecision info \<le> 100 \<Longrightarrow>
     \<exists>r0. newResult rt bt c d = Inr r0"
  by (simp add: newResult_def formatPrice_ok formatCandleDetails_ok toFixed_def)

lemma entryLoop_Some_Inl:
  "symbolInfo bt = Some info \<Longrightarrow> entryLoop rt bt ci up down i cc res = Inl e \<Longrightarrow> e = RangeError"
proof (induction rt bt ci up down i cc res rule: entryLoop.induct)
  case (1 rt bt ci up down i cc res)
  show ?case
  proof (cases "i < scanBound bt ci")
    case False
    with "1.prems" show ?thesis by (simp add: entryLoop_stop)
  next
    case inb: True
    show ?thesis
    proof (cases "triggers bt up down i")
      case False
      from False inb have c: "\<not> up \<le> high (candles bt ! i)" "\<not> low (candles bt ! i) \<le> down"
        "i < min (ci + maxLookForwardCandles (runConfig bt) + 1) (length (candles bt))"
        by (simp_all add: triggers_def scanBound_def)
      from "1.prems" inb False show ?thesis
        using "1.IH" [OF c(3) refl refl c(1,2)] by (simp add: entryLoop_skip)
    next
      case True
      show ?thesis
      proof (cases "high (candles bt ! i) \<ge> up")
        case up: True
        from "1.prems" show ?thesis
          unfolding entryLoop_up [OF inb up] bindE_Inl_iff
          by (auto dest: formatPrice_Some_Inl formatCandleDetails_Some_Inl)
      next
        case nup: False
        with True have dn: "low (candles bt ! i) \<le> down" by (simp add: triggers_def)
        from "1.prems" show ?thesis
          unfolding entryLoop_down [OF inb nup dn] bindE_Inl_iff
          by (auto dest: formatPrice_Some_Inl formatCandleDetails_Some_Inl)
      qed
    qed
  qed
qed

lemma processLegendCandle_None_iff:
  "processLegendCandle rt bt ci c d = Inr None \<longleftrightarrow> isLegendCandle bt ci = Inr False"
  by (cases "isLegendCandle bt ci")
     (auto simp: processLegendCandle_def bindE_Inr_iff)

lemma processLegendCandle_Some:
  assumes "processLegendCandle rt bt ci c d = Inr (Some r)"
  shows "\<exists>info. symbolInfo bt = Some info \<and> 0 \<le> pricePrecision info \<and> pricePrecision info \<le> 100
       \<and> isLegendCandle bt ci = Inr True
       \<and> Legend_Candle_no r = legendCandles bt + 1
       \<and> timestamp r = momentFormat rt (openTime c)
       \<and> upwardThreshold (LegendCandle r) = toFixedS rt (upwardThreshold_of c d) (pricePrecision info)
       \<and> downwardThreshold (LegendCandle r) = toFixedS rt (downwardThreshold_of c d) (pricePrecision info)
       \<and> ((entry r = None \<and> \<not> success r
             \<and> (\<forall>j. ci + 1 \<le> j \<and> j < scanBound bt ci
                    \<longrightarrow> \<not> triggers bt (upwardThreshold_of c d) (downwardThreshold_of c d) j))
          \<or> (\<exists>j e. ci + 1 \<le> j \<and> j < scanBound bt ci
                \<and> triggers bt (upwardThreshold_of c d) (downwardThreshold_of c d) j
                \<and> (\<forall>k. ci + 1 \<le> k \<and> k < j
                       \<longrightarrow> \<not> triggers bt (upwardThreshold_of c d) (downwardThreshold_of c d) k)
                \<and> entry r = Some e \<and> success r
                \<and> scanned rt bt (upwardThreshold_of c d) (downwardThreshold_of c d) j (j - ci) e))"
proof -
  from assms obtain r0 where gate: "isLegendCandle bt ci = Inr True"
    and r0: "newResult rt bt c d = Inr r0"
    and loop: "entryLoop rt bt ci (upwardThreshold_of c d) (downwardThreshold_of c d) (ci + 1) 0 r0 = Inr r"
    by (auto simp: processLegendCandle_def bindE_Inr_iff split: if_splits)
  from newResult_Inr [OF r0] obtain info where info: "symbolInfo bt = Some info"
      "0 \<le> pricePrecision info" "pricePrecision info \<le> 100"
    and f: "Legend_Candle_no r0 = legendCandles bt + 1" "timestamp r0 = momentFormat rt (openTime c)"
      "upwardThreshold (LegendCandle r0) = toFixedS rt (upwardThreshold_of c d) (pricePrecision info)"
      "downwardThreshold (LegendCandle r0) = toFixedS rt (downwardThreshold_of c d) (pricePrecision info)"
      "entry r0 = None" "\<not> success r0"
    by blast
  from entryLoop_Inr [OF loop] show ?thesis
  proof
    assume "r = r0 \<and> (\<forall>j. ci + 1 \<le> j \<and> j < scanBound bt ci
        \<longrightarrow> \<not> triggers bt (upwardThreshold_of c d) (downwardThreshold_of c d) j)"
    with info f gate show ?thesis by simp
  next
    assume "\<exists>j e. ci + 1 \<le> j \<and> j < scanBound bt ci
        \<and> triggers bt (upwardThreshold_of c d) (downwardThreshold_of c d) j
        \<and> (\<forall>k. ci + 1 \<le> k \<and> k < j
              \<longrightarrow> \<not> triggers bt (upwardThreshold_of c d) (downwardThreshold_of c d) k)
        \<and> r = r0\<lparr>entry := Some e, success := True\<rparr>
        \<and> scanned rt bt (upwardThreshold_of c d) (downwardThreshold_of c d) j (0 + (j - (ci + 1)) + 1) e"
    then obtain j e where j: "ci + 1 \<le> j" "j < scanBound bt ci"
        "triggers bt (upwardThreshold_of c d) (downwardThreshold_of c d) j"
        "\<forall>k. ci + 1 \<le> k \<and> k < j
              \<longrightarrow> \<not> triggers bt (upwardThreshold_of c d) (downwardThreshold_of c d) k"
      and r: "r = r0\<lparr>entry := Some e, success := True\<rparr>"
      and sc: "scanned rt bt (upwardThreshold_of c d) (downwardThreshold_of c d) j (0 + (j - (ci + 1)) + 1) e"
      by blast
    from j(1) have "0 + (j - (ci + 1)) + 1 = j - ci" by simp
    with sc have sc': "scanned rt bt (upwardThreshold_of c d) (downwardThreshold_of c d) j (j - ci) e"
      by simp
    have "ci + 1 \<le> j \<and> j < scanBound bt ci
        \<and> triggers bt (upwardThreshold_of c d) (downwardThreshold_of c d) j
        \<and> (\<forall>k. ci + 1 \<le> k \<and> k < j
              \<longrightarrow> \<not> triggers bt (upwardThreshold_of c d) (downwardThreshold_of c d) k)
        \<and> entry r = Some e \<and> success r
        \<and> scanned rt bt (upwardThreshold_of c d) (downwardThreshold_of c d) j (j - ci) e"
      using j r sc' by simp
    then have "\<exists>j e. ci + 1 \<le> j \<and> j < scanBound bt ci
        \<and> triggers bt (upwardThreshold_of c d) (downwardThreshold_of c d) j
        \<and> (\<forall>k. ci + 1 \<le> k \<and> k < j
              \<longrightarrow> \<not> triggers bt (upwardThreshold_of c d) (downwardThreshold_of c d) k)
        \<and> entry r = Some e \<and> success r
        \<and> scanned rt bt (upwardThreshold_of c d) (downwardThreshold_of c d) j (j - ci) e"
      by blast
    moreover have "Legend_Candle_no r = legendCandles bt + 1" "timestamp r = momentFormat rt (openTime c)"
      "upwardThreshold (LegendCandle r) = toFixedS rt (upwardThreshold_of c d) (pricePrecision info)"
      "downwardThreshold (LegendCandle r) = toFixedS rt (downwardThreshold_of c d) (pricePrecision info)"
      using f r by simp_all
    ultimately show ?thesis using info gate by blast
  qed
qed

section \<open>The concrete run, evaluated\<close>

lemma exLegend_result:
  "processLegendCandle rt exBacktester 10 exLegend 1 = Inr (Some (exResult rt))"
  apply code_simp
  apply (simp add: of_rat_divide of_rat_add of_rat_diff of_rat_mult)
  done

lemma exBacktester_candles:
  "candles exBacktester ! 11 = exForward" "length (candles exBacktester) = 12"
  "maxLookForwardCandles (runConfig exBacktester) = 100"
  by code_simp+

lemma exThresholds:
  "upwardThreshold_of exLegend 1 = 606 / 5" "downwardThreshold_of exLegend 1 = 594 / 5"
  by (simp_all add: upwardThreshold_of_def downwardThreshold_of_def thresholdValue_def
        exLegend_def exCandle_def)

section \<open>The entry scan\<close>

text \<open>
  C3. Let the scan of a legend candle at index \<open>ci\<close> reach the candle at index \<open>j\<close>
  (inside the look-forward range) with no earlier candle triggering. If that candle has
  both \<open>high \<ge> upwardThreshold\<close> and \<open>low \<le> downwardThreshold\<close>, the result carries a LONG
  entry with reason \<open>UpwardThresholdMet\<close> at the upward threshold itself, taken at that
  candle: the scan stopped there.
\<close>

theorem entry_upward_wins_tie:
  assumes run: "processLegendCandle rt bt ci c d = Inr (Some r)"
    and range: "ci < j" "j \<le> ci + maxLookForwardCandles (runConfig bt)" "j < length (candles bt)"
    and first: "\<forall>k. ci < k \<and> k < j
                  \<longrightarrow> \<not> triggers bt (upwardThreshold_of c d) (downwardThreshold_of c d) k"
    and up: "high (candles bt ! j) \<ge> upwardThreshold_of c d"
    and down: "low (candles bt ! j) \<le> downwardThreshold_of c d"
  shows "\<exists>e. entry r = Some e \<and> success r
           \<and> side e = LONG \<and> reason e = UpwardThresholdMet
           \<and> price e = upwardThreshold_of c d
           \<and> candlesUntilThreshold e = j - ci
           \<and> time e = momentFormat rt (openTime (candles bt ! j))"
proof -
  let ?U = "upwardThreshold_of c d" and ?D = "downwardThreshold_of c d"
  have inb: "ci + 1 \<le> j" "j < scanBound bt ci"
    using range by (simp_all add: scanBound_def)
  have trig: "triggers bt ?U ?D j" using up by (simp add: triggers_def)
  from processLegendCandle_Some [OF run]
  consider (none) "\<forall>j. ci + 1 \<le> j \<and> j < scanBound bt ci \<longrightarrow> \<not> triggers bt ?U ?D j"
    | (some) j' e where "ci + 1 \<le> j'" "j' < scanBound bt ci" "triggers bt ?U ?D j'"
        "\<forall>k. ci + 1 \<le> k \<and> k < j' \<longrightarrow> \<not> triggers bt ?U ?D k"
        "entry r = Some e" "success r" "scanned rt bt ?U ?D j' (j' - ci) e"
    by blast
  then show ?thesis
  proof cases
    case none
    with inb trig show ?thesis by blast
  next
    case some
    have "\<not> j' < j" using first some(1,3) by auto
    moreover have "\<not> j < j'" using some(4) inb(1) trig by blast
    ultimately have "j' = j" by simp
    with some(5,6,7) up show ?thesis by (simp add: scanned_def)
  qed
qed

theorem entry_upward_wins_tie_witness:
  "processLegendCandle exRuntime exBacktester 10 exLegend 1 = Inr (Some (exResult exRuntime))
   \<and> high (candles exBacktester ! 11) \<ge> upwardThreshold_of exLegend 1
   \<and> low (candles exBacktester ! 11) \<le> downwardThreshold_of exLegend 1
   \<and> side (the (entry (exResult exRuntime))) = LONG
   \<and> reason (the (entry (exResult exRuntime))) = UpwardThresholdMet
   \<and> price (the (entry (exResult exRuntime))) = upwardThreshold_of exLegend 1
   \<and> candlesUntilThreshold (the (entry (exResult exRuntime))) = 1"
proof -
  have run: "processLegendCandle exRuntime exBacktester 10 exLegend 1
               = Inr (Some (exResult exRuntime))"
    by (rule exLegend_result)
  have up: "high (candles exBacktester ! 11) \<ge> upwardThreshold_of exLegend 1"
    and down: "low (candles exBacktester ! 11) \<le> downwardThreshold_of exLegend 1"
    by (simp_all add: exBacktester_candles exThresholds exForward_def exCandle_def)
  have first: "\<forall>k. (10::nat) < k \<and> k < 11
      \<longrightarrow> \<not> triggers exBacktester (upwardThreshold_of exLegend 1) (downwardThreshold_of exLegend 1) k"
    by auto
  have "\<exists>e. entry (exResult exRuntime) = Some e \<and> success (exResult exRuntime)
           \<and> side e = LONG \<and> reason e = UpwardThresholdMet
           \<and> price e = upwardThreshold_of exLegend 1
           \<and> candlesUntilThreshold e = 11 - 10
           \<and> time e = momentFormat exRuntime (openTime (candles exBacktester ! 11))"
    by (rule entry_upward_wins_tie [OF run _ _ _ first up down])
       (simp_all add: exBacktester_candles)
  with run up down show ?thesis by auto
qed

text \<open>
  C4. For the result of a legend candle at index \<open>ci\<close>: an entry's
  \<open>candlesUntilThreshold\<close> lies between 1 and \<open>maxLookForwardCandles\<close>, the candle that
  many places after \<open>ci\<close> exists and triggers, and no candle strictly between triggers;
  if no candle at \<open>ci + 1 .. min (ci + maxLookForwardCandles) lastIndex\<close> triggers, there is
  no entry and \<open>success\<close> is false; and the scan reads no other candle: it returns the
  same on any series of the same length that agrees on those indices.
\<close>

theorem entry_scan_bounded:
  assumes run: "processLegendCandle rt bt ci c d = Inr (Some r)"
  shows "(\<forall>e. entry r = Some e \<longrightarrow>
            1 \<le> candlesUntilThreshold e
            \<and> candlesUntilThreshold e \<le> maxLookForwardCandles (runConfig bt)
            \<and> ci + candlesUntilThreshold e < length (candles bt)
            \<and> triggers bt (upwardThreshold_of c d) (downwardThreshold_of c d)
                 (ci + candlesUntilThreshold e)
            \<and> (\<forall>k. ci < k \<and> k < ci + candlesUntilThreshold e
                  \<longrightarrow> \<not> triggers bt (upwardThreshold_of c d) (downwardThreshold_of c d) k))
       \<and> ((\<forall>j. ci < j \<and> j \<le> ci + maxLookForwardCandles (runConfig bt) \<and> j < length (candles bt)
                \<longrightarrow> \<not> triggers bt (upwardThreshold_of c d) (downwardThreshold_of c d) j)
            \<longrightarrow> entry r = None \<and> \<not> success r)
       \<and> (\<forall>b res. symbolInfo b = symbolInfo bt \<and> runConfig b = runConfig bt
              \<and> length (candles b) = length (candles bt)
              \<and> (\<forall>j. ci < j \<and> j \<le> ci + maxLookForwardCandles (runConfig bt)
                      \<and> j < length (candles bt) \<longrightarrow> candles b ! j = candles bt ! j)
            \<longrightarrow> entryLoop rt b ci (upwardThreshold_of c d) (downwardThreshold_of c d) (ci + 1) 0 res
                = entryLoop rt bt ci (upwardThreshold_of c d) (downwardThreshold_of c d) (ci + 1) 0 res)"
proof (intro conjI allI impI)
  let ?U = "upwardThreshold_of c d" and ?D = "downwardThreshold_of c d"
  note shape = processLegendCandle_Some [OF run]
  {
    fix e :: Entry assume e: "entry r = Some e"
    from shape e obtain j where j: "ci + 1 \<le> j" "j < scanBound bt ci" "triggers bt ?U ?D j"
        "\<forall>k. ci + 1 \<le> k \<and> k < j \<longrightarrow> \<not> triggers bt ?U ?D k"
        "scanned rt bt ?U ?D j (j - ci) e"
      by auto
    from j(5) have n: "candlesUntilThreshold e = j - ci" by (simp add: scanned_def)
    with j(1) have at: "ci + candlesUntilThreshold e = j" by simp
    show "1 \<le> candlesUntilThreshold e" using n j(1) by simp
    show "candlesUntilThreshold e \<le> maxLookForwardCandles (runConfig bt)"
      using n j(2) by (auto simp: scanBound_def)
    show "ci + candlesUntilThreshold e < length (candles bt)"
      using at j(2) by (simp add: scanBound_def)
    show "triggers bt ?U ?D (ci + candlesUntilThreshold e)"
      using at j(3) by simp
    fix k assume "ci < k \<and> k < ci + candlesUntilThreshold e"
    with at j(4) show "\<not> triggers bt ?U ?D k" by simp
  next
    assume quiet: "\<forall>j. ci < j \<and> j \<le> ci + maxLookForwardCandles (runConfig bt)
        \<and> j < length (candles bt) \<longrightarrow> \<not> triggers bt ?U ?D j"
    have "\<forall>j. ci + 1 \<le> j \<and> j < scanBound bt ci \<longrightarrow> \<not> triggers bt ?U ?D j"
      using quiet by (simp add: scanBound_def)
    with shape show "entry r = None" "\<not> success r" by auto
  next
    fix b :: Backtester and res :: ThresholdResult
    assume a: "symbolInfo b = symbolInfo bt \<and> runConfig b = runConfig bt
        \<and> length (candles b) = length (candles bt)
        \<and> (\<forall>j. ci < j \<and> j \<le> ci + maxLookForwardCandles (runConfig bt)
              \<and> j < length (candles bt) \<longrightarrow> candles b ! j = candles bt ! j)"
    then have "\<forall>j. ci + 1 \<le> j \<and> j < scanBound bt ci \<longrightarrow> candles b ! j = candles bt ! j"
      by (simp add: scanBound_def)
    with a show "entryLoop rt b ci ?U ?D (ci + 1) 0 res = entryLoop rt bt ci ?U ?D (ci + 1) 0 res"
      by (intro entryLoop_cong) simp_all
  }
qed

theorem entry_scan_bounded_witness:
  "processLegendCandle exRuntime exBacktester 10 exLegend 1 = Inr (Some (exResult exRuntime))
   \<and> entry (exResult exRuntime) = Some (exEntry exRuntime)
   \<and> 1 \<le> candlesUntilThreshold (exEntry exRuntime)
   \<and> candlesUntilThreshold (exEntry exRuntime) \<le> maxLookForwardCandles (runConfig exBacktester)
   \<and> 10 + candlesUntilThreshold (exEntry exRuntime) < length (candles exBacktester)"
proof -
  have run: "processLegendCandle exRuntime exBacktester 10 exLegend 1
               = Inr (Some (exResult exRuntime))"
    by (rule exLegend_result)
  have e: "entry (exResult exRuntime) = Some (exEntry exRuntime)"
    by (simp add: exResult_def)
  from entry_scan_bounded [OF run] e
  have "1 \<le> candlesUntilThreshold (exEntry exRuntime)
      \<and> candlesUntilThreshold (exEntry exRuntime) \<le> maxLookForwardCandles (runConfig exBacktester)
      \<and> 10 + candlesUntilThreshold (exEntry exRuntime) < length (candles exBacktester)"
    by blast
  with run e show ?thesis by simp
qed

section \<open>The main loop\<close>

lemma mainLoop_done:
  "\<not> i < length (candles bt) \<Longrightarrow> mainLoop rt bt lb i rs = Inr (rs, bt)"
  by (subst mainLoop.simps) simp

lemma mainLoop_step:
  "i < length (candles bt) \<Longrightarrow>
     mainLoop rt bt lb i rs =
       (case resultAt rt bt lb (legendCandles bt) i of
          Inl e \<Rightarrow> Inl e
        | Inr None \<Rightarrow> mainLoop rt bt lb (i + 1) rs
        | Inr (Some r) \<Rightarrow>
            mainLoop rt
              (bt\<lparr>legendCandles := legendCandles bt + 1,
                  successfulTrades := successfulTrades bt + (if success r then 1 else 0)\<rparr>)
              lb (i + 1) (rs @ [r]))"
  by (subst mainLoop.simps)
     (simp add: resultAt_def primaryThreshold_def Let_def split: sum.splits option.splits)

lemma resultAt_cong:
  "candles b = candles a \<Longrightarrow> symbolInfo b = symbolInfo a \<Longrightarrow> runConfig b = runConfig a \<Longrightarrow>
     resultAt rt b lb k j = resultAt rt a lb k j"
  unfolding resultAt_def primaryThreshold_def
  by (simp add: processLegendCandle_cong [of "b\<lparr>legendCandles := k\<rparr>" "a\<lparr>legendCandles := k\<rparr>"])

lemma gated_cong:
  "candles b = candles a \<Longrightarrow> runConfig b = runConfig a \<Longrightarrow> gated b i = gated a i"
  by (simp add: gated_def isLegendCandle_cong [of b a])

lemma resultAt_gate:
  "resultAt rt bt lb k i = Inr None \<Longrightarrow> isLegendCandle bt i \<noteq> Inr True"
  "resultAt rt bt lb k i = Inr (Some r) \<Longrightarrow> isLegendCandle bt i = Inr True"
proof -
  have g: "isLegendCandle (bt\<lparr>legendCandles := k\<rparr>) i = isLegendCandle bt i"
    by (rule isLegendCandle_cong) simp_all
  show "resultAt rt bt lb k i = Inr None \<Longrightarrow> isLegendCandle bt i \<noteq> Inr True"
    using g by (simp add: resultAt_def processLegendCandle_None_iff)
  show "resultAt rt bt lb k i = Inr (Some r) \<Longrightarrow> isLegendCandle bt i = Inr True"
    using g processLegendCandle_Some [of rt "bt\<lparr>legendCandles := k\<rparr>" i "candles bt ! i"
      "primaryThreshold bt lb i" r]
    by (auto simp: resultAt_def)
qed

lemma gated_skip:
  "i < length (candles bt) \<Longrightarrow> isLegendCandle bt i \<noteq> Inr True \<Longrightarrow> gated bt i = gated bt (i + 1)"
  by (simp add: gated_def upt_conv_Cons)

lemma gated_take:
  "i < length (candles bt) \<Longrightarrow> isLegendCandle bt i = Inr True \<Longrightarrow> gated bt i = i # gated bt (i + 1)"
  by (simp add: gated_def upt_conv_Cons)

lemma gated_done: "\<not> i < length (candles bt) \<Longrightarrow> gated bt i = []"
  by (simp add: gated_def)

lemma mainLoop_Inr:
  "mainLoop rt bt lb i rs = Inr (rs', bt') \<Longrightarrow>
     \<exists>new. rs' = rs @ new
       \<and> bt' = bt\<lparr>legendCandles := legendCandles bt + length new,
                  successfulTrades := successfulTrades bt + length (filter success new)\<rparr>
       \<and> length new = length (gated bt i)
       \<and> (\<forall>k<length new.
             resultAt rt bt lb (legendCandles bt + k) (gated bt i ! k) = Inr (Some (new ! k)))"
proof (induction rt bt lb i rs arbitrary: rs' bt' rule: mainLoop.induct)
  case (1 rt bt lb i rs)
  show ?case
  proof (cases "i < length (candles bt)")
    case False
    with "1.prems" have "rs' = rs" "bt' = bt" by (simp_all add: mainLoop_done)
    with False show ?thesis by (simp add: gated_done)
  next
    case inb: True
    note step = mainLoop_step [OF inb, of rt lb rs]
    have here: "resultAt rt bt lb (legendCandles bt) i =
        processLegendCandle rt bt i (candles bt ! i)
          (averageDiff (slice (candles bt) (i - lb) i) * thresholdMultiplier (runConfig bt))"
      by (simp add: resultAt_def primaryThreshold_def)
    show ?thesis
    proof (cases "resultAt rt bt lb (legendCandles bt) i")
      case (Inl e)
      with "1.prems" step show ?thesis by simp
    next
      case (Inr found)
      show ?thesis
      proof (cases found)
        case None
        with Inr "1.prems" step have run: "mainLoop rt bt lb (i + 1) rs = Inr (rs', bt')" by simp
        from Inr None here have p: "processLegendCandle rt bt i (candles bt ! i)
          (averageDiff (slice (candles bt) (i - lb) i) * thresholdMultiplier (runConfig bt)) = Inr found"
          "found = None" by simp_all
        from Inr None have "isLegendCandle bt i \<noteq> Inr True"
          by (intro resultAt_gate(1)) simp
        with inb have g: "gated bt i = gated bt (i + 1)" by (rule gated_skip)
        from "1.IH"(1) [OF inb refl refl refl p run] show ?thesis by (simp only: g)
      next
        case (Some r)
        let ?b = "bt\<lparr>legendCandles := legendCandles bt + 1,
                  successfulTrades := successfulTrades bt + (if success r then 1 else 0)\<rparr>"
        let ?b' = "if success r
                then bt\<lparr>legendCandles := legendCandles bt + 1,
                        successfulTrades := successfulTrades bt + 1\<rparr>
                else bt\<lparr>legendCandles := legendCandles bt + 1\<rparr>"
        have bb: "?b' = ?b" by simp
        from Inr Some "1.prems" step have run: "mainLoop rt ?b lb (i + 1) (rs @ [r]) = Inr (rs', bt')"
          by simp
        from Inr Some here have p: "processLegendCandle rt bt i (candles bt ! i)
          (averageDiff (slice (candles bt) (i - lb) i) * thresholdMultiplier (runConfig bt)) = Inr found"
          "found = Some r" by simp_all
        from Inr Some have gate: "isLegendCandle bt i = Inr True"
          by (intro resultAt_gate(2) [of rt bt lb "legendCandles bt" i r]) simp
        with inb have g: "gated bt i = i # gated bt (i + 1)" by (rule gated_take)
        have g2: "gated ?b (i + 1) = gated bt (i + 1)" by (rule gated_cong) simp_all
        have r2: "resultAt rt ?b lb k j = resultAt rt bt lb k j" for k j
          by (rule resultAt_cong) simp_all
        from run have "mainLoop rt ?b' lb (i + 1) (rs @ [r]) = Inr (rs', bt')" by (simp only: bb)
        from "1.IH"(2) [OF inb refl refl refl p this]
        obtain new where new: "rs' = (rs @ [r]) @ new"
          "bt' = ?b'\<lparr>legendCandles := legendCandles ?b' + length new,
                  successfulTrades := successfulTrades ?b' + length (filter success new)\<rparr>"
          "length new = length (gated ?b' (i + 1))"
          "\<forall>k<length new.
             resultAt rt ?b' lb (legendCandles ?b' + k) (gated ?b' (i + 1) ! k) = Inr (Some (new ! k))"
          by blast
        have a: "rs' = rs @ (r # new)" using new(1) by simp
        have b: "bt' = bt\<lparr>legendCandles := legendCandles bt + length (r # new),
                  successfulTrades := successfulTrades bt + length (filter success (r # new))\<rparr>"
          using new(2) by (simp only: bb) simp
        have c: "length (r # new) = length (gated bt i)"
          using new(3) by (simp only: bb g g2) simp
        have d: "\<forall>k<length (r # new).
             resultAt rt bt lb (legendCandles bt + k) (gated bt i ! k) = Inr (Some ((r # new) ! k))"
        proof (intro allI impI)
          fix k assume k: "k < length (r # new)"
          show "resultAt rt bt lb (legendCandles bt + k) (gated bt i ! k) = Inr (Some ((r # new) ! k))"
          proof (cases k)
            case 0
            with Inr Some g show ?thesis by simp
          next
            case (Suc k')
            with k have "k' < length new" by simp
            with new(4) have "resultAt rt ?b' lb (legendCandles ?b' + k') (gated ?b' (i + 1) ! k')
                = Inr (Some (new ! k'))" by blast
            then have "resultAt rt bt lb (legendCandles bt + 1 + k') (gated bt (i + 1) ! k')
                = Inr (Some (new ! k'))"
              by (simp only: bb g2 r2) simp
            with Suc g show ?thesis by simp
          qed
        qed
        from a b c d show ?thesis by blast
      qed
    qed
  qed
qed

section \<open>Before a run\<close>

lemma loadData_counters:
  "legendCandles (loadData bt a b rows) = legendCandles bt
   \<and> successfulTrades (loadData bt a b rows) = successfulTrades bt
   \<and> symbolInfo (loadData bt a b rows) = symbolInfo bt
   \<and> runConfig (loadData bt a b rows) = runConfig bt
   \<and> (totalCandles bt = length (candles bt)
        \<longrightarrow> totalCandles (loadData bt a b rows) = length (candles (loadData bt a b rows)))"
  unfolding loadData_def by (induction rows arbitrary: bt) simp_all

lemma prepared_counters:
  "prepared bt \<Longrightarrow>
     legendCandles bt = 0 \<and> successfulTrades bt = 0 \<and> totalCandles bt = length (candles bt)"
proof (induction rule: prepared.induct)
  case (prepared_new s cfg)
  show ?case by (simp add: newBacktester_def)
next
  case (prepared_info bt info)
  then show ?case by (simp add: setSymbolInfo_def)
next
  case (prepared_load bt a b rows)
  then show ?case using loadData_counters [of bt a b rows] by simp
qed

section \<open>Errors of the main loop\<close>

lemma isLegendCandle_in_range:
  "i < length (candles bt) \<Longrightarrow>
     isLegendCandle bt i =
       Inr (getLookbackPeriod bt \<le> i \<and>
            currentDiff (candles bt ! i)
              \<ge> threshold (runConfig bt)
                  * averageDiff (slice (candles bt) (i - getLookbackPeriod bt) i))"
  by (simp add: isLegendCandle_def Let_def)

lemma resultAt_None:
  assumes "symbolInfo bt = None" "i < length (candles bt)"
  shows "resultAt rt bt lb k i = Inr None \<or> resultAt rt bt lb k i = Inl SymbolInfoNotSet"
proof -
  let ?b = "bt\<lparr>legendCandles := k\<rparr>"
  have "i < length (candles ?b)" "symbolInfo ?b = None" using assms by simp_all
  then show ?thesis
    unfolding resultAt_def processLegendCandle_def
    by (simp add: isLegendCandle_in_range newResult_None)
qed

lemma resultAt_Some_Inl:
  assumes "symbolInfo bt = Some info" "i < length (candles bt)" "resultAt rt bt lb k i = Inl e"
  shows "e = RangeError"
proof -
  let ?b = "bt\<lparr>legendCandles := k\<rparr>"
  have b: "i < length (candles ?b)" "symbolInfo ?b = Some info" using assms by simp_all
  from assms(3) show ?thesis
    unfolding resultAt_def processLegendCandle_def
    using newResult_Some_Inl [OF b(2)] entryLoop_Some_Inl [OF b(2)]
    by (auto simp: isLegendCandle_in_range [OF b(1)] bindE_Inl_iff split: if_splits)
qed

lemma entryLoop_ok:
  "symbolInfo bt = Some info \<Longrightarrow> 0 \<le> pricePrecision info \<Longrightarrow> pricePrecision info \<le> 100 \<Longrightarrow>
     entryLoop rt bt ci up down i cc res \<noteq> Inl e"
proof (induction rt bt ci up down i cc res rule: entryLoop.induct)
  case (1 rt bt ci up down i cc res)
  note ok = formatPrice_ok [OF "1.prems"] formatCandleDetails_ok [OF "1.prems"]
  show ?case
  proof (cases "i < scanBound bt ci")
    case False
    then show ?thesis by (simp add: entryLoop_stop)
  next
    case inb: True
    show ?thesis
    proof (cases "triggers bt up down i")
      case False
      from False inb have c: "\<not> up \<le> high (candles bt ! i)" "\<not> low (candles bt ! i) \<le> down"
        "i < min (ci + maxLookForwardCandles (runConfig bt) + 1) (length (candles bt))"
        by (simp_all add: triggers_def scanBound_def)
      have "entryLoop rt bt ci up down (i + 1) (cc + 1) res \<noteq> Inl e"
        using c(3) refl refl c(1,2) "1.prems" by (rule "1.IH")
      with inb False show ?thesis by (simp add: entryLoop_skip)
    next
      case True
      show ?thesis
      proof (cases "high (candles bt ! i) \<ge> up")
        case up: True
        show ?thesis
          unfolding entryLoop_up [OF inb up] by (simp add: ok)
      next
        case nup: False
        with True have dn: "low (candles bt ! i) \<le> down" by (simp add: triggers_def)
        show ?thesis
          unfolding entryLoop_down [OF inb nup dn] by (simp add: ok)
      qed
    qed
  qed
qed

lemma resultAt_ok:
  assumes "symbolInfo bt = Some info" "0 \<le> pricePrecision info" "pricePrecision info \<le> 100"
    and "i < length (candles bt)"
  shows "resultAt rt bt lb k i \<noteq> Inl e"
proof -
  let ?b = "bt\<lparr>legendCandles := k\<rparr>"
  have b: "symbolInfo ?b = Some info" "i < length (candles ?b)" using assms by simp_all
  from newResult_ok [OF b(1) assms(2,3)]
  obtain r0 where r0: "newResult rt ?b (candles bt ! i) (primaryThreshold bt lb i) = Inr r0"
    by blast
  show ?thesis
    unfolding resultAt_def processLegendCandle_def
    using entryLoop_ok [OF b(1) assms(2,3)]
    by (auto simp: isLegendCandle_in_range [OF b(2)] r0 bindE_Inl_iff)
qed

lemma mainLoop_None:
  "symbolInfo bt = None \<Longrightarrow>
     mainLoop rt bt lb i rs = Inl SymbolInfoNotSet \<or> mainLoop rt bt lb i rs = Inr (rs, bt)"
proof (induction rt bt lb i rs rule: mainLoop.induct)
  case (1 rt bt lb i rs)
  show ?case
  proof (cases "i < length (candles bt)")
    case False
    then show ?thesis by (simp add: mainLoop_done)
  next
    case inb: True
    have here: "resultAt rt bt lb (legendCandles bt) i =
        processLegendCandle rt bt i (candles bt ! i)
          (averageDiff (slice (candles bt) (i - lb) i) * thresholdMultiplier (runConfig bt))"
      by (simp add: resultAt_def primaryThreshold_def)
    from resultAt_None [OF "1.prems" inb, of rt lb "legendCandles bt"] show ?thesis
    proof
      assume none: "resultAt rt bt lb (legendCandles bt) i = Inr None"
      with here have "processLegendCandle rt bt i (candles bt ! i)
          (averageDiff (slice (candles bt) (i - lb) i) * thresholdMultiplier (runConfig bt)) = Inr None"
        by simp
      from "1.IH"(1) [OF inb refl refl refl this refl "1.prems"] none show ?thesis
        by (simp add: mainLoop_step [OF inb])
    next
      assume "resultAt rt bt lb (legendCandles bt) i = Inl SymbolInfoNotSet"
      then show ?thesis by (simp add: mainLoop_step [OF inb])
    qed
  qed
qed

lemma mainLoop_Some_Inl:
  "symbolInfo bt = Some info \<Longrightarrow> mainLoop rt bt lb i rs = Inl e \<Longrightarrow> e = RangeError"
proof (induction rt bt lb i rs rule: mainLoop.induct)
  case (1 rt bt lb i rs)
  show ?case
  proof (cases "i < length (candles bt)")
    case False
    with "1.prems"(2) show ?thesis by (simp add: mainLoop_done)
  next
    case inb: True
    have here: "resultAt rt bt lb (legendCandles bt) i =
        processLegendCandle rt bt i (candles bt ! i)
          (averageDiff (slice (candles bt) (i - lb) i) * thresholdMultiplier (runConfig bt))"
      by (simp add: resultAt_def primaryThreshold_def)
    show ?thesis
    proof (cases "resultAt rt bt lb (legendCandles bt) i")
      case (Inl e')
      with "1.prems"(2) have "e' = e" by (simp add: mainLoop_step [OF inb])
      with Inl resultAt_Some_Inl [OF "1.prems"(1) inb] show ?thesis by simp
    next
      case (Inr found)
      show ?thesis
      proof (cases found)
        case None
        with Inr here have p: "processLegendCandle rt bt i (candles bt ! i)
          (averageDiff (slice (candles bt) (i - lb) i) * thresholdMultiplier (runConfig bt)) = Inr found"
          "found = None" by simp_all
        from Inr None "1.prems"(2) have "mainLoop rt bt lb (i + 1) rs = Inl e"
          by (simp add: mainLoop_step [OF inb])
        with "1.IH"(1) [OF inb refl refl refl p "1.prems"(1)] show ?thesis by simp
      next
        case (Some r)
        let ?b' = "if success r
                then bt\<lparr>legendCandles := legendCandles bt + 1,
                        successfulTrades := successfulTrades bt + 1\<rparr>
                else bt\<lparr>legendCandles := legendCandles bt + 1\<rparr>"
        have bb: "?b' = bt\<lparr>legendCandles := legendCandles bt + 1,
                  successfulTrades := successfulTrades bt + (if success r then 1 else 0)\<rparr>"
          by simp
        have si: "symbolInfo ?b' = Some info" using "1.prems"(1) by simp
        from Inr Some here have p: "processLegendCandle rt bt i (candles bt ! i)
          (averageDiff (slice (candles bt) (i - lb) i) * thresholdMultiplier (runConfig bt)) = Inr found"
          "found = Some r" by simp_all
        from Inr Some "1.prems"(2) have "mainLoop rt ?b' lb (i + 1) (rs @ [r]) = Inl e"
          by (simp only: bb) (simp add: mainLoop_step [OF inb])
        with "1.IH"(2) [OF inb refl refl refl p si] show ?thesis by simp
      qed
    qed
  qed
qed

lemma mainLoop_ok:
  "symbolInfo bt = Some info \<Longrightarrow> 0 \<le> pricePrecision info \<Longrightarrow> pricePrecision info \<le> 100 \<Longrightarrow>
     mainLoop rt bt lb i rs \<noteq> Inl e"
proof (induction rt bt lb i rs rule: mainLoop.induct)
  case (1 rt bt lb i rs)
  show ?case
  proof (cases "i < length (candles bt)")
    case False
    then show ?thesis by (simp add: mainLoop_done)
  next
    case inb: True
    have here: "resultAt rt bt lb (legendCandles bt) i =
        processLegendCandle rt bt i (candles bt ! i)
          (averageDiff (slice (candles bt) (i - lb) i) * thresholdMultiplier (runConfig bt))"
      by (simp add: resultAt_def primaryThreshold_def)
    show ?thesis
    proof (cases "resultAt rt bt lb (legendCandles bt) i")
      case (Inl e')
      with resultAt_ok [OF "1.prems" inb] show ?thesis by blast
    next
      case (Inr found)
      show ?thesis
      proof (cases found)
        case None
        with Inr here have p: "processLegendCandle rt bt i (candles bt ! i)
          (averageDiff (slice (candles bt) (i - lb) i) * thresholdMultiplier (runConfig bt)) = Inr found"
          "found = None" by simp_all
        from "1.IH"(1) [OF inb refl refl refl p "1.prems"] Inr None show ?thesis
          by (simp add: mainLoop_step [OF inb])
      next
        case (Some r)
        let ?b' = "if success r
                then bt\<lparr>legendCandles := legendCandles bt + 1,
                        successfulTrades := successfulTrades bt + 1\<rparr>
                else bt\<lparr>legendCandles := legendCandles bt + 1\<rparr>"
        have bb: "?b' = bt\<lparr>legendCandles := legendCandles bt + 1,
                  successfulTrades := successfulTrades bt + (if success r then 1 else 0)\<rparr>"
          by simp
        have si: "symbolInfo ?b' = Some info" using "1.prems"(1) by simp
        from Inr Some here have p: "processLegendCandle rt bt i (candles bt ! i)
          (averageDiff (slice (candles bt) (i - lb) i) * thresholdMultiplier (runConfig bt)) = Inr found"
          "found = Some r" by simp_all
        have "mainLoop rt ?b' lb (i + 1) (rs @ [r]) \<noteq> Inl e"
          using inb refl refl refl p si "1.prems"(2,3) by (rule "1.IH"(2))
        with Inr Some show ?thesis
          by (simp only: bb) (simp add: mainLoop_step [OF inb])
      qed
    qed
  qed
qed

section \<open>A run of findThresholds\<close>

lemma findThresholds_short:
  "length (candles bt) < getLookbackPeriod bt \<Longrightarrow> findThresholds rt bt = Inr ([], bt, None)"
  by (simp add: findThresholds_def)

lemma gated_positions: "gated bt (getLookbackPeriod bt) = legendPositions bt"
  unfolding gated_def legendPositions_def
  by (rule filter_cong) (simp_all add: isLegendCandle_in_range advisoryCheck_def)

lemma legendPositions_range:
  "k < length (legendPositions bt) \<Longrightarrow>
     getLookbackPeriod bt \<le> legendPositions bt ! k
     \<and> legendPositions bt ! k < length (candles bt)
     \<and> advisoryCheck bt (legendPositions bt ! k)"
  using nth_mem [of k "legendPositions bt"] by (auto simp: legendPositions_def)

lemma findThresholds_Inr:
  assumes "findThresholds rt bt = Inr (results, bt', saved)"
  shows "bt' = bt\<lparr>legendCandles := legendCandles bt + length results,
                  successfulTrades := successfulTrades bt + length (filter success results)\<rparr>"
    and "length results = length (legendPositions bt)"
    and "\<forall>k<length results.
           resultAt rt bt (getLookbackPeriod bt) (legendCandles bt + k) (legendPositions bt ! k)
             = Inr (Some (results ! k))"
    and "saved = None \<longleftrightarrow> length (candles bt) < getLookbackPeriod bt"
    and "\<forall>d. saved = Some d \<longrightarrow> saveResults bt' results = Inr d"
proof -
  let ?lb = "getLookbackPeriod bt"
  have "bt' = bt\<lparr>legendCandles := legendCandles bt + length results,
                  successfulTrades := successfulTrades bt + length (filter success results)\<rparr>
    \<and> length results = length (legendPositions bt)
    \<and> (\<forall>k<length results.
           resultAt rt bt ?lb (legendCandles bt + k) (legendPositions bt ! k)
             = Inr (Some (results ! k)))
    \<and> (saved = None \<longleftrightarrow> length (candles bt) < ?lb)
    \<and> (\<forall>d. saved = Some d \<longrightarrow> saveResults bt' results = Inr d)"
  proof (cases "length (candles bt) < ?lb")
    case True
    with assms have "results = []" "bt' = bt" "saved = None"
      by (simp_all add: findThresholds_short)
    moreover from True have "legendPositions bt = []" by (simp add: legendPositions_def)
    ultimately show ?thesis using True by simp
  next
    case False
    with assms obtain d where loop: "mainLoop rt bt ?lb ?lb [] = Inr (results, bt')"
      and d: "saveResults bt' results = Inr d" "saved = Some d"
      by (auto simp: findThresholds_def Let_def split: sum.splits prod.splits)
    from mainLoop_Inr [OF loop] False d show ?thesis
      by (auto simp: gated_positions)
  qed
  then show "bt' = bt\<lparr>legendCandles := legendCandles bt + length results,
                  successfulTrades := successfulTrades bt + length (filter success results)\<rparr>"
    and "length results = length (legendPositions bt)"
    and "\<forall>k<length results.
           resultAt rt bt (getLookbackPeriod bt) (legendCandles bt + k) (legendPositions bt ! k)
             = Inr (Some (results ! k))"
    and "saved = None \<longleftrightarrow> length (candles bt) < getLookbackPeriod bt"
    and "\<forall>d. saved = Some d \<longrightarrow> saveResults bt' results = Inr d"
    by blast+
qed

lemma findThresholds_returns:
  assumes "symbolInfo bt = Some info" "0 \<le> pricePrecision info" "pricePrecision info \<le> 100"
  shows "\<exists>results bt' saved. findThresholds rt bt = Inr (results, bt', saved)"
proof (cases "length (candles bt) < getLookbackPeriod bt")
  case True
  then show ?thesis by (simp add: findThresholds_short)
next
  case False
  let ?lb = "getLookbackPeriod bt"
  from mainLoop_ok [OF assms] obtain results bt' where
    loop: "mainLoop rt bt ?lb ?lb [] = Inr (results, bt')"
    by (cases "mainLoop rt bt ?lb ?lb []") auto
  from mainLoop_Inr [OF loop] have "symbolInfo bt' = Some info" using assms(1) by auto
  with loop False show ?thesis
    by (simp add: findThresholds_def saveResults_def)
qed

text \<open>What the result at place \<open>k\<close> of the list is.\<close>

lemma result_at:
  assumes run: "findThresholds rt bt = Inr (results, bt', saved)" and k: "k < length results"
  shows "\<exists>info. symbolInfo bt = Some info \<and> 0 \<le> pricePrecision info \<and> pricePrecision info \<le> 100
     \<and> Legend_Candle_no (results ! k) = legendCandles bt + k + 1
     \<and> timestamp (results ! k) = positionTimestamp rt bt (legendPositions bt ! k)
     \<and> upwardThreshold (LegendCandle (results ! k)) =
         toFixedS rt (upwardThreshold_of (candles bt ! (legendPositions bt ! k))
            (primaryThreshold bt (getLookbackPeriod bt) (legendPositions bt ! k))) (pricePrecision info)
     \<and> downwardThreshold (LegendCandle (results ! k)) =
         toFixedS rt (downwardThreshold_of (candles bt ! (legendPositions bt ! k))
            (primaryThreshold bt (getLookbackPeriod bt) (legendPositions bt ! k))) (pricePrecision info)
     \<and> (success (results ! k) \<longleftrightarrow> entry (results ! k) \<noteq> None)
     \<and> (\<forall>e. entry (results ! k) = Some e \<longrightarrow>
           (side e = LONG \<and> price e = upwardThreshold_of (candles bt ! (legendPositions bt ! k))
               (primaryThreshold bt (getLookbackPeriod bt) (legendPositions bt ! k)))
         \<or> (side e = SHORT \<and> price e = downwardThreshold_of (candles bt ! (legendPositions bt ! k))
               (primaryThreshold bt (getLookbackPeriod bt) (legendPositions bt ! k))))"
proof -
  let ?i = "legendPositions bt ! k" and ?lb = "getLookbackPeriod bt"
  let ?b = "bt\<lparr>legendCandles := legendCandles bt + k\<rparr>"
  from findThresholds_Inr(3) [OF run] k
  have "processLegendCandle rt ?b ?i (candles bt ! ?i) (primaryThreshold bt ?lb ?i)
          = Inr (Some (results ! k))"
    by (simp add: resultAt_def)
  from processLegendCandle_Some [OF this] show ?thesis
    by (auto simp: positionTimestamp_def scanned_def split: if_splits)
qed

section \<open>The concrete runs, evaluated\<close>

lemma ex_run:
  "findThresholds rt exBacktester =
     Inr ([exResult rt], exBacktester\<lparr>legendCandles := 1, successfulTrades := 1\<rparr>,
          Some (exSaved rt))"
  apply code_simp
  apply (simp add: of_rat_divide of_rat_add of_rat_diff of_rat_mult)
  done

lemma exQuiet_run:
  "findThresholds rt exQuietBacktester = Inr ([], exQuietBacktester, Some exQuietSaved)"
  by code_simp

lemma exNoInfo_run: "findThresholds rt exNoInfoBacktester = Inl SymbolInfoNotSet"
  by code_simp

lemma exShort_run: "findThresholds rt exShortBacktester = Inr ([], exShortBacktester, None)"
  by code_simp

lemma exNeg_run:
  "findThresholds rt exNegBacktester =
     Inr ([exResult rt], exNegBacktester\<lparr>legendCandles := 1, successfulTrades := 1\<rparr>,
          Some (exSaved rt))"
  apply code_simp
  apply (simp add: of_rat_divide of_rat_add of_rat_diff of_rat_mult)
  done


lemma ex_prepared:
  "prepared exBacktester" "prepared exQuietBacktester" "prepared exNoInfoBacktester"
  "prepared exShortBacktester" "prepared exNegBacktester" "prepared exFiveBacktester"
  unfolding exBacktester_def exQuietBacktester_def exNoInfoBacktester_def
    exShortBacktester_def exNegBacktester_def exFiveBacktester_def
  by (intro prepared.intros)+

lemma ex_facts:
  "getLookbackPeriod exBacktester = 10" "length (candles exBacktester) = 12"
  "legendPositions exBacktester = [10]"
  "candles exBacktester ! 10 = exLegend"
  "slice (candles exBacktester) 0 10 = exWindow"
  "symbolInfo exBacktester = Some exInfo"
  "runConfig exBacktester = exConfig"
  by code_simp+

lemma ex_window:
  "averageDiff exWindow = 1 / 2" "averageDiff exWindow3 = 1 / 2"
  "averageDiff exNegWindow = 1 / 2" "meanMove_claimed exNegWindow = - (1 / 2)"
  by (simp_all add: averageDiff_def previousDiffs_def meanMove_claimed_def
        exWindow_def exWindow3_def exNegWindow_def exCandle_def)

lemma exRerun_run:
  "findThresholds rt exRerunBacktester =
     Inr ([exRerunResult rt], exBacktester\<lparr>legendCandles := 2, successfulTrades := 2\<rparr>,
          Some (exRerunSaved rt))"
  apply code_simp
  apply (simp add: of_rat_divide of_rat_add of_rat_diff of_rat_mult)
  done

lemma exThree_run:
  "findThresholds rt exThreeBacktester =
     Inr (exThreeResults rt, exThreeBacktester\<lparr>legendCandles := 3, successfulTrades := 2\<rparr>,
          Some (exThreeSaved rt))"
  apply code_simp
  apply (simp add: of_rat_divide of_rat_add of_rat_diff of_rat_mult)
  done

lemma exThree_prepared: "prepared exThreeBacktester"
  unfolding exThreeBacktester_def by (intro prepared.intros)

section \<open>Which positions give a result\<close>

text \<open>
  C1 (as the code has it). The results of a run stand, in order, for exactly the
  positions \<open>i\<close> from \<open>lookbackPeriod\<close> on at which the check of \<open>isLegendCandle\<close>,
  \<open>currentDiff \<ge> threshold * averageDiff\<close>, holds: a position that fails the check gives
  no result. With symbol info set and a price precision in 0..100 the run returns.
\<close>

theorem results_are_checked_positions:
  "(\<forall>results bt' saved. findThresholds rt bt = Inr (results, bt', saved) \<longrightarrow>
      length results = length (legendPositions bt)
      \<and> map timestamp results = map (positionTimestamp rt bt) (legendPositions bt))
   \<and> (\<forall>info. symbolInfo bt = Some info \<and> 0 \<le> pricePrecision info \<and> pricePrecision info \<le> 100
        \<longrightarrow> (\<exists>results bt' saved. findThresholds rt bt = Inr (results, bt', saved)))"
proof (intro conjI allI impI)
  fix results :: "ThresholdResult list" and bt' :: Backtester and saved :: "BacktestResult option"
  assume run: "findThresholds rt bt = Inr (results, bt', saved)"
  show len: "length results = length (legendPositions bt)"
    by (rule findThresholds_Inr(2) [OF run])
  show "map timestamp results = map (positionTimestamp rt bt) (legendPositions bt)"
  proof (rule nth_equalityI)
    show "length (map timestamp results) = length (map (positionTimestamp rt bt) (legendPositions bt))"
      using len by simp
  next
    fix k assume "k < length (map timestamp results)"
    then have k: "k < length results" by simp
    from result_at [OF run k]
    have "timestamp (results ! k) = positionTimestamp rt bt (legendPositions bt ! k)" by blast
    with k len show "map timestamp results ! k
        = map (positionTimestamp rt bt) (legendPositions bt) ! k"
      by simp
  qed
next
  fix info :: SymbolInfo
  assume "symbolInfo bt = Some info \<and> 0 \<le> pricePrecision info \<and> pricePrecision info \<le> 100"
  then show "\<exists>results bt' saved. findThresholds rt bt = Inr (results, bt', saved)"
    by (intro findThresholds_returns [of bt info]) simp_all
qed

theorem results_are_checked_positions_witness:
  "findThresholds exRuntime exBacktester =
     Inr ([exResult exRuntime], exBacktester\<lparr>legendCandles := 1, successfulTrades := 1\<rparr>,
          Some (exSaved exRuntime))
   \<and> legendPositions exBacktester = [10]
   \<and> length [exResult exRuntime] = length (legendPositions exBacktester)
   \<and> map timestamp [exResult exRuntime]
       = map (positionTimestamp exRuntime exBacktester) (legendPositions exBacktester)"
  using results_are_checked_positions [of exRuntime exBacktester]
  by (simp add: ex_run ex_facts)

theorem result_suppressed_counterexample:
  "getLookbackPeriod exQuietBacktester \<le> 10
   \<and> 10 < length (candles exQuietBacktester)
   \<and> symbolInfo exQuietBacktester = Some exInfo
   \<and> legendPositions exQuietBacktester = []
   \<and> findThresholds exRuntime exQuietBacktester = Inr ([], exQuietBacktester, Some exQuietSaved)"
proof -
  have "getLookbackPeriod exQuietBacktester \<le> 10" "10 < length (candles exQuietBacktester)"
    "symbolInfo exQuietBacktester = Some exInfo" "legendPositions exQuietBacktester = []"
    by code_simp+
  then show ?thesis by (simp add: exQuiet_run)
qed

section \<open>Threshold sizing\<close>

lemma averageDiff_mean: "averageDiff cs = meanMove cs"
proof -
  have "foldl (+) a xs = a + sum_list xs" for a :: real and xs
    by (induction xs arbitrary: a) simp_all
  then show ?thesis by (simp add: averageDiff_def previousDiffs_def meanMove_def)
qed

lemma meanMove_positive:
  assumes "\<forall>c \<in> set cs. 0 < open c"
  shows "meanMove cs = meanMove_claimed cs"
proof -
  have "\<bar>(close c - open c) / open c\<bar> * 100 = \<bar>close c - open c\<bar> / open c * 100"
    if "c \<in> set cs" for c
  proof -
    from that assms have "0 < open c" by blast
    then show ?thesis by (simp add: abs_divide)
  qed
  then have "map (\<lambda>c. \<bar>(close c - open c) / open c\<bar> * 100) cs
      = map (\<lambda>c. \<bar>close c - open c\<bar> / open c * 100) cs"
    by (intro map_cong refl)
  then show ?thesis by (simp only: meanMove_def meanMove_claimed_def)
qed

lemma threshold_algebra:
  "upwardThreshold_of c d = close c * (1 + d / 100)"
  "downwardThreshold_of c d = close c * (1 - d / 100)"
  by (simp_all add: upwardThreshold_of_def downwardThreshold_of_def thresholdValue_def algebra_simps)

text \<open>
  C2 (as the code has it). Let \<open>r\<close> be the result at place \<open>k\<close> of a run, for the candle
  at position \<open>i\<close> with close \<open>c\<close>, and let every open be nonzero. The dynamic threshold
  \<open>D\<close> is the arithmetic mean, over the \<open>lookbackPeriod\<close> candles before \<open>i\<close>, of
  \<open>abs ((close - open) / open) * 100\<close>, times \<open>thresholdMultiplier\<close>; it is the mean of
  \<open>abs (close - open) / open * 100\<close> when every open in the window is positive. The
  upward threshold is \<open>c * (1 + D / 100)\<close> and the downward one \<open>c * (1 - D / 100)\<close>: these
  are the values formatted into the result and the price of its entry.
\<close>

theorem thresholds_from_close:
  fixes rt bt results k
  defines "lb \<equiv> getLookbackPeriod bt"
    and "i \<equiv> legendPositions bt ! k"
    and "r \<equiv> results ! k"
  defines "window \<equiv> slice (candles bt) (i - lb) i"
    and "c \<equiv> close (candles bt ! i)"
    and "digits \<equiv> pricePrecision (the (symbolInfo bt))"
  defines "D \<equiv> meanMove window * thresholdMultiplier (runConfig bt)"
  assumes run: "findThresholds rt bt = Inr (results, bt', saved)"
    and k: "k < length results"
    and nonzero: "\<forall>x \<in> set (candles bt). open x \<noteq> 0"
  shows "lb \<le> i \<and> i < length (candles bt) \<and> length window = lb
     \<and> symbolInfo bt \<noteq> None
     \<and> timestamp r = positionTimestamp rt bt i
     \<and> upwardThreshold (LegendCandle r) = toFixedS rt (c * (1 + D / 100)) digits
     \<and> downwardThreshold (LegendCandle r) = toFixedS rt (c * (1 - D / 100)) digits
     \<and> (case entry r of
          None \<Rightarrow> True
        | Some e \<Rightarrow> price e = (if side e = LONG then c * (1 + D / 100) else c * (1 - D / 100)))
     \<and> ((\<forall>x \<in> set window. 0 < open x)
          \<longrightarrow> D = meanMove_claimed window * thresholdMultiplier (runConfig bt))"
proof -
  from k findThresholds_Inr(2) [OF run] have "k < length (legendPositions bt)" by simp
  from legendPositions_range [OF this] have range: "lb \<le> i" "i < length (candles bt)"
    by (simp_all add: lb_def i_def)
  then have len: "length window = lb" by (simp add: window_def slice_def)
  have D: "primaryThreshold bt lb i = D"
    by (simp add: primaryThreshold_def D_def window_def averageDiff_mean)
  from result_at [OF run k] obtain info where info: "symbolInfo bt = Some info"
    and ts: "timestamp r = positionTimestamp rt bt i"
    and up: "upwardThreshold (LegendCandle r)
        = toFixedS rt (upwardThreshold_of (candles bt ! i) (primaryThreshold bt lb i)) (pricePrecision info)"
    and down: "downwardThreshold (LegendCandle r)
        = toFixedS rt (downwardThreshold_of (candles bt ! i) (primaryThreshold bt lb i)) (pricePrecision info)"
    and e: "\<forall>e. entry r = Some e \<longrightarrow>
           (side e = LONG \<and> price e = upwardThreshold_of (candles bt ! i) (primaryThreshold bt lb i))
         \<or> (side e = SHORT \<and> price e = downwardThreshold_of (candles bt ! i) (primaryThreshold bt lb i))"
    unfolding lb_def i_def r_def by blast
  have dg: "digits = pricePrecision info" by (simp add: digits_def info)
  have "case entry r of
          None \<Rightarrow> True
        | Some e \<Rightarrow> price e = (if side e = LONG then c * (1 + D / 100) else c * (1 - D / 100))"
    using e by (auto simp: D threshold_algebra c_def split: option.splits)
  moreover have "(\<forall>x \<in> set window. 0 < open x)
          \<longrightarrow> D = meanMove_claimed window * thresholdMultiplier (runConfig bt)"
    by (simp add: D_def meanMove_positive)
  ultimately show ?thesis
    using range len ts up down info by (simp add: D threshold_algebra c_def dg)
qed

theorem thresholds_from_close_witness:
  "findThresholds exRuntime exBacktester =
     Inr ([exResult exRuntime], exBacktester\<lparr>legendCandles := 1, successfulTrades := 1\<rparr>,
          Some (exSaved exRuntime))
   \<and> legendPositions exBacktester ! 0 = 10
   \<and> meanMove exWindow * thresholdMultiplier exConfig = 1
   \<and> upwardThreshold (LegendCandle (exResult exRuntime))
        = toFixedS exRuntime (close exLegend * (1 + 1 / 100)) 2
   \<and> downwardThreshold (LegendCandle (exResult exRuntime))
        = toFixedS exRuntime (close exLegend * (1 - 1 / 100)) 2"
proof -
  have run: "findThresholds exRuntime exBacktester =
     Inr ([exResult exRuntime], exBacktester\<lparr>legendCandles := 1, successfulTrades := 1\<rparr>,
          Some (exSaved exRuntime))"
    by (rule ex_run)
  have k: "0 < length [exResult exRuntime]" by simp
  have nonzero: "\<forall>x \<in> set (candles exBacktester). open x \<noteq> 0"
    by code_simp
  have D: "meanMove exWindow * thresholdMultiplier exConfig = 1"
    using ex_window(1) by (simp add: averageDiff_mean exConfig_def)
  from thresholds_from_close [OF run k nonzero] D show ?thesis
    by (simp add: run ex_facts exInfo_def exResult_def)
qed

theorem thresholds_from_close_counterexample:
  "findThresholds exRuntime exNegBacktester =
     Inr ([exResult exRuntime], exNegBacktester\<lparr>legendCandles := 1, successfulTrades := 1\<rparr>,
          Some (exSaved exRuntime))
   \<and> slice (candles exNegBacktester) 0 10 = exNegWindow
   \<and> candles exNegBacktester ! 10 = exLegend
   \<and> primaryThreshold exNegBacktester 10 10 = 1
   \<and> upwardThreshold_of exLegend 1 = 606 / 5
   \<and> entry (exResult exRuntime) = Some (exEntry exRuntime)
   \<and> side (exEntry exRuntime) = LONG
   \<and> price (exEntry exRuntime) = 606 / 5
   \<and> meanMove_claimed exNegWindow * thresholdMultiplier exConfig = - 1
   \<and> close exLegend * (1 + meanMove_claimed exNegWindow * thresholdMultiplier exConfig / 100)
        = 594 / 5"
proof -
  have w: "slice (candles exNegBacktester) 0 10 = exNegWindow"
    "candles exNegBacktester ! 10 = exLegend" "runConfig exNegBacktester = exConfig"
    by code_simp+
  have "primaryThreshold exNegBacktester 10 10 = 1"
    by (simp add: primaryThreshold_def w ex_window exConfig_def)
  moreover have "meanMove_claimed exNegWindow * thresholdMultiplier exConfig = - 1"
    by (simp add: ex_window exConfig_def)
  moreover have "close exLegend
      * (1 + meanMove_claimed exNegWindow * thresholdMultiplier exConfig / 100) = 594 / 5"
    by (simp add: ex_window exLegend_def exCandle_def exConfig_def)
  ultimately show ?thesis
    by (simp add: exNeg_run w exThresholds exResult_def exEntry_def)
qed

section \<open>Numbering, success flag, statistics\<close>

text \<open>
  C6 (as the code has it). The \<open>Legend_Candle_no\<close> fields of the results of a run are
  consecutive, in list order, from one more than the engine's legend count before the
  run; in the run of a prepared engine, whose count is 0, they are \<open>1, 2, ..., N\<close>. The
  count is a field of the engine that no method resets, so a second run on the same
  engine goes on from \<open>N + 1\<close>.
\<close>

theorem legend_numbers_sequential:
  assumes run: "findThresholds rt bt = Inr (results, bt', saved)"
  shows "map Legend_Candle_no results
           = [legendCandles bt + 1..<legendCandles bt + 1 + length results]
     \<and> (prepared bt \<longrightarrow> map Legend_Candle_no results = [1..<Suc (length results)])"
proof -
  have general: "map Legend_Candle_no results
      = [legendCandles bt + 1..<legendCandles bt + 1 + length results]"
  proof (rule nth_equalityI)
    show "length (map Legend_Candle_no results)
        = length [legendCandles bt + 1..<legendCandles bt + 1 + length results]"
      by (simp del: upt_Suc)
  next
    fix k assume "k < length (map Legend_Candle_no results)"
    then have k: "k < length results" by simp
    from result_at [OF run k] have "Legend_Candle_no (results ! k) = legendCandles bt + k + 1"
      by blast
    with k show "map Legend_Candle_no results ! k
        = [legendCandles bt + 1..<legendCandles bt + 1 + length results] ! k"
      by (simp del: upt_Suc)
  qed
  have "map Legend_Candle_no results = [1..<Suc (length results)]" if "prepared bt"
  proof -
    from prepared_counters [OF that] have "legendCandles bt = 0" by simp
    with general show ?thesis by (simp del: upt_Suc)
  qed
  with general show ?thesis by blast
qed

theorem legend_numbers_sequential_witness:
  "prepared exThreeBacktester
   \<and> findThresholds exRuntime exThreeBacktester =
       Inr (exThreeResults exRuntime,
            exThreeBacktester\<lparr>legendCandles := 3, successfulTrades := 2\<rparr>,
            Some (exThreeSaved exRuntime))
   \<and> length (exThreeResults exRuntime) = 3
   \<and> map Legend_Candle_no (exThreeResults exRuntime) = [1, 2, 3]"
proof -
  have len: "length (exThreeResults exRuntime) = 3" by (simp add: exThreeResults_def)
  from legend_numbers_sequential [OF exThree_run [of exRuntime]] exThree_prepared
  have "map Legend_Candle_no (exThreeResults exRuntime)
      = [1..<Suc (length (exThreeResults exRuntime))]"
    by blast
  also have "\<dots> = [1, 2, 3]" unfolding len by (simp add: upt_rec)
  finally show ?thesis by (simp add: exThree_prepared exThree_run len)
qed

theorem legend_numbers_rerun_counterexample:
  "findThresholds exRuntime exBacktester =
       Inr ([exResult exRuntime], exRerunBacktester, Some (exSaved exRuntime))
   \<and> findThresholds exRuntime exRerunBacktester =
       Inr ([exRerunResult exRuntime],
            exBacktester\<lparr>legendCandles := 2, successfulTrades := 2\<rparr>,
            Some (exRerunSaved exRuntime))
   \<and> length [exRerunResult exRuntime] = 1
   \<and> map Legend_Candle_no [exRerunResult exRuntime] = [2]"
proof -
  have first: "findThresholds exRuntime exBacktester =
       Inr ([exResult exRuntime], exRerunBacktester, Some (exSaved exRuntime))"
    unfolding exRerunBacktester_def by (rule ex_run)
  have no: "map Legend_Candle_no [exRerunResult exRuntime] = [2]"
    by (simp add: exRerunResult_def)
  from first exRerun_run [of exRuntime] no show ?thesis by simp
qed

text \<open>
  C10. Every result a run returns has \<open>success\<close> true exactly when its \<open>entry\<close> is
  present.
\<close>

theorem success_iff_entry:
  assumes run: "findThresholds rt bt = Inr (results, bt', saved)"
    and r: "r \<in> set results"
  shows "success r \<longleftrightarrow> entry r \<noteq> None"
proof -
  from r obtain k where k: "k < length results" and rk: "results ! k = r"
    by (auto simp: in_set_conv_nth)
  from result_at [OF run k] rk show ?thesis by auto
qed

theorem success_iff_entry_witness:
  "findThresholds exRuntime exBacktester =
       Inr ([exResult exRuntime], exBacktester\<lparr>legendCandles := 1, successfulTrades := 1\<rparr>,
            Some (exSaved exRuntime))
   \<and> exResult exRuntime \<in> set [exResult exRuntime]
   \<and> success (exResult exRuntime)
   \<and> entry (exResult exRuntime) \<noteq> None"
proof -
  have r: "exResult exRuntime \<in> set [exResult exRuntime]" by simp
  have "entry (exResult exRuntime) \<noteq> None" by (simp add: exResult_def)
  with success_iff_entry [OF ex_run [of exRuntime] r] have "success (exResult exRuntime)"
    by blast
  then show ?thesis by (simp add: ex_run exResult_def)
qed

text \<open>
  C7 (as the code has it). After a run on a prepared engine, the statistics recomputed
  from the result list are the recorded ones, both those \<open>getStats\<close> returns and those
  \<open>saveResults\<close> wrote: the legend count is the length of the list, the successful count
  is the number of results with \<open>success\<close>, and the success rate is the percentage
  \<open>successful / legend * 100\<close>, or 0 when the list is empty.
\<close>

theorem stats_recomputed_from_results:
  assumes prep: "prepared bt"
    and run: "findThresholds rt bt = Inr (results, bt', saved)"
  shows "getStats bt' = statsOfResults (totalCandles bt) results
     \<and> (case saved of
          None \<Rightarrow> True
        | Some d \<Rightarrow> stats_r d = statsOfResults (totalCandles bt) results \<and> results_r d = results)"
proof -
  from prepared_counters [OF prep]
  have zero: "legendCandles bt = 0" "successfulTrades bt = 0" by simp_all
  note after = findThresholds_Inr(1) [OF run]
  have stats: "getStats bt' = statsOfResults (totalCandles bt) results"
    by (subst after) (simp add: getStats_def statsOfResults_def zero)
  have "stats_r d = statsOfResults (totalCandles bt) results \<and> results_r d = results"
    if "saved = Some d" for d
  proof -
    from that findThresholds_Inr(5) [OF run] have "saveResults bt' results = Inr d" by blast
    then have "stats_r d = getStats bt'" "results_r d = results"
      by (auto simp: saveResults_def getStats_def split: option.splits)
    with stats show ?thesis by simp
  qed
  with stats show ?thesis by (simp split: option.splits)
qed

theorem stats_recomputed_from_results_witness:
  "prepared exBacktester
   \<and> findThresholds exRuntime exBacktester =
       Inr ([exResult exRuntime], exBacktester\<lparr>legendCandles := 1, successfulTrades := 1\<rparr>,
            Some (exSaved exRuntime))
   \<and> getStats (exBacktester\<lparr>legendCandles := 1, successfulTrades := 1\<rparr>)
       = statsOfResults (totalCandles exBacktester) [exResult exRuntime]
   \<and> stats_r (exSaved exRuntime) = statsOfResults (totalCandles exBacktester) [exResult exRuntime]"
  using stats_recomputed_from_results [OF ex_prepared(1) ex_run [of exRuntime]]
  by (simp add: ex_prepared ex_run)

theorem success_rate_counterexample:
  "findThresholds exRuntime exBacktester =
       Inr ([exResult exRuntime], exBacktester\<lparr>legendCandles := 1, successfulTrades := 1\<rparr>,
            Some (exSaved exRuntime))
   \<and> successRate_s (stats_r (exSaved exRuntime)) = 100
   \<and> successRate_s (getStats (exBacktester\<lparr>legendCandles := 1, successfulTrades := 1\<rparr>)) = 100
   \<and> real (length (filter success [exResult exRuntime])) / real (length [exResult exRuntime]) = 1"
  by (simp add: ex_run exSaved_def getStats_def exResult_def)

section \<open>Short series and missing symbol info\<close>

text \<open>
  C5 (as the code has it). On a prepared engine whose series has fewer than
  \<open>lookbackPeriod\<close> candles, \<open>findThresholds\<close> returns the empty list without an error and
  leaves the engine as it was; the legend count, the successful count and the success
  rate are 0, and \<open>totalCandles\<close> is the number of candles loaded.
\<close>

theorem short_series_returns_empty:
  assumes prep: "prepared bt"
    and short: "length (candles bt) < getLookbackPeriod bt"
  shows "findThresholds rt bt = Inr ([], bt, None)
     \<and> getStats bt =
         \<lparr>totalCandles_s = length (candles bt), legendCandles_s = 0,
          successfulTrades_s = 0, successRate_s = 0\<rparr>"
  using prepared_counters [OF prep] findThresholds_short [OF short]
  by (simp add: getStats_def)

theorem short_series_returns_empty_witness:
  "prepared exShortBacktester
   \<and> length (candles exShortBacktester) < getLookbackPeriod exShortBacktester
   \<and> findThresholds exRuntime exShortBacktester = Inr ([], exShortBacktester, None)
   \<and> legendCandles_s (getStats exShortBacktester) = 0
   \<and> successfulTrades_s (getStats exShortBacktester) = 0
   \<and> successRate_s (getStats exShortBacktester) = 0"
proof -
  have short: "length (candles exShortBacktester) < getLookbackPeriod exShortBacktester"
    by code_simp
  from short_series_returns_empty [OF ex_prepared(4) short, of exRuntime] show ?thesis
    by (simp add: ex_prepared short)
qed

theorem short_series_stats_counterexample:
  "prepared exShortBacktester
   \<and> length (candles exShortBacktester) < getLookbackPeriod exShortBacktester
   \<and> findThresholds exRuntime exShortBacktester = Inr ([], exShortBacktester, None)
   \<and> totalCandles_s (getStats exShortBacktester) = 1"
proof -
  have "length (candles exShortBacktester) < getLookbackPeriod exShortBacktester"
    "totalCandles_s (getStats exShortBacktester) = 1"
    by code_simp+
  then show ?thesis by (simp add: ex_prepared exShort_run)
qed

text \<open>
  C8. \<open>findThresholds\<close> ends in one of the two missing-symbol-info errors exactly when
  \<open>symbolInfo\<close> is unset and the series has at least \<open>lookbackPeriod\<close> candles; a shorter
  series returns the empty list, whether or not \<open>symbolInfo\<close> is set.
\<close>

theorem missing_symbol_info_error:
  "((findThresholds rt bt = Inl SymbolInfoNotSet
      \<or> findThresholds rt bt = Inl SymbolInfoNotSetBeforeSaving)
     \<longleftrightarrow> symbolInfo bt = None \<and> getLookbackPeriod bt \<le> length (candles bt))
   \<and> (length (candles bt) < getLookbackPeriod bt
        \<longrightarrow> findThresholds rt bt = Inr ([], bt, None))"
proof (intro conjI)
  let ?lb = "getLookbackPeriod bt"
  show "(findThresholds rt bt = Inl SymbolInfoNotSet
      \<or> findThresholds rt bt = Inl SymbolInfoNotSetBeforeSaving)
     \<longleftrightarrow> symbolInfo bt = None \<and> getLookbackPeriod bt \<le> length (candles bt)"
  proof
  assume err: "findThresholds rt bt = Inl SymbolInfoNotSet
      \<or> findThresholds rt bt = Inl SymbolInfoNotSetBeforeSaving"
  have long: "?lb \<le> length (candles bt)"
  proof (rule ccontr)
    assume "\<not> ?lb \<le> length (candles bt)"
    then have "findThresholds rt bt = Inr ([], bt, None)" by (simp add: findThresholds_short)
    with err show False by simp
  qed
  have "symbolInfo bt = None"
  proof (cases "symbolInfo bt")
    case None
    then show ?thesis .
  next
    case (Some info)
    have "e = RangeError" if e: "findThresholds rt bt = Inl e" for e
    proof (cases "mainLoop rt bt ?lb ?lb []")
      case (Inl e')
      with e long have "e' = e" by (simp add: findThresholds_def)
      with Inl mainLoop_Some_Inl [OF Some] show ?thesis by simp
    next
      case (Inr p)
      obtain results bt' where p: "p = (results, bt')" by (cases p)
      from mainLoop_Inr [of rt bt ?lb ?lb "[]" results bt'] Inr p Some
      have "symbolInfo bt' = Some info" by auto
      with e long Inr p show ?thesis by (simp add: findThresholds_def saveResults_def)
    qed
    with err show ?thesis by auto
  qed
  with long show "symbolInfo bt = None \<and> ?lb \<le> length (candles bt)" by simp
next
  assume a: "symbolInfo bt = None \<and> ?lb \<le> length (candles bt)"
  then have none: "symbolInfo bt = None" and long: "\<not> length (candles bt) < ?lb" by simp_all
  from mainLoop_None [OF none, of rt ?lb ?lb "[]"]
  show "findThresholds rt bt = Inl SymbolInfoNotSet
      \<or> findThresholds rt bt = Inl SymbolInfoNotSetBeforeSaving"
  proof
    assume "mainLoop rt bt ?lb ?lb [] = Inl SymbolInfoNotSet"
    with long show ?thesis by (simp add: findThresholds_def)
  next
    assume "mainLoop rt bt ?lb ?lb [] = Inr ([], bt)"
    with long none show ?thesis by (simp add: findThresholds_def saveResults_def)
  qed
  qed
next
  show "length (candles bt) < getLookbackPeriod bt
        \<longrightarrow> findThresholds rt bt = Inr ([], bt, None)"
    by (simp add: findThresholds_short)
qed

theorem missing_symbol_info_error_witness:
  "symbolInfo exNoInfoBacktester = None
   \<and> getLookbackPeriod exNoInfoBacktester \<le> length (candles exNoInfoBacktester)
   \<and> (findThresholds exRuntime exNoInfoBacktester = Inl SymbolInfoNotSet
       \<or> findThresholds exRuntime exNoInfoBacktester = Inl SymbolInfoNotSetBeforeSaving)"
proof -
  have a: "symbolInfo exNoInfoBacktester = None"
    "getLookbackPeriod exNoInfoBacktester \<le> length (candles exNoInfoBacktester)"
    by code_simp+
  with missing_symbol_info_error [of exRuntime exNoInfoBacktester] show ?thesis by blast
qed

section \<open>The scenario of the specification\<close>




end
